theory Spec2Isabelle
  imports Complex_Main "HOL-Library.AList"
begin

section \<open>Values: floats, exceptions, data frames\<close>

text \<open>
  A float64 value is a finite real, an infinity or NaN. Rounding and the sign of zero are
  abstracted; what is kept is which operations give NaN or an infinity instead of
  a number, and that no numpy operation on float64 raises.
  HOL equality on this type treats NaN as equal to NaN; the IEEE comparison \<open>==\<close> is
  \<open>np_eq\<close> below.
\<close>

datatype npfloat = Fin real | PInf | NInf | NaN

fun np_neg :: "npfloat \<Rightarrow> npfloat" where
  "np_neg (Fin a) = Fin (- a)"
| "np_neg PInf = NInf"
| "np_neg NInf = PInf"
| "np_neg NaN = NaN"

fun np_add :: "npfloat \<Rightarrow> npfloat \<Rightarrow> npfloat" where
  "np_add (Fin a) (Fin b) = Fin (a + b)"
| "np_add NaN _ = NaN"
| "np_add _ NaN = NaN"
| "np_add PInf NInf = NaN"
| "np_add NInf PInf = NaN"
| "np_add PInf _ = PInf"
| "np_add _ PInf = PInf"
| "np_add NInf _ = NInf"
| "np_add _ NInf = NInf"

definition np_sub :: "npfloat \<Rightarrow> npfloat \<Rightarrow> npfloat" where
  "np_sub a b = np_add a (np_neg b)"

fun np_mul :: "npfloat \<Rightarrow> npfloat \<Rightarrow> npfloat" where
  "np_mul (Fin a) (Fin b) = Fin (a * b)"
| "np_mul NaN _ = NaN"
| "np_mul _ NaN = NaN"
| "np_mul PInf (Fin b) = (if b = 0 then NaN else if 0 < b then PInf else NInf)"
| "np_mul NInf (Fin b) = (if b = 0 then NaN else if 0 < b then NInf else PInf)"
| "np_mul (Fin a) PInf = (if a = 0 then NaN else if 0 < a then PInf else NInf)"
| "np_mul (Fin a) NInf = (if a = 0 then NaN else if 0 < a then NInf else PInf)"
| "np_mul PInf PInf = PInf"
| "np_mul NInf NInf = PInf"
| "np_mul PInf NInf = NInf"
| "np_mul NInf PInf = NInf"

text \<open>
  Division of numpy float64 scalars: a zero divisor gives an infinity or NaN (with a
  RuntimeWarning), never an exception.
\<close>

fun np_div :: "npfloat \<Rightarrow> npfloat \<Rightarrow> npfloat" where
  "np_div (Fin a) (Fin b) =
     (if b \<noteq> 0 then Fin (a / b) else if a = 0 then NaN else if 0 < a then PInf else NInf)"
| "np_div NaN _ = NaN"
| "np_div _ NaN = NaN"
| "np_div (Fin a) PInf = Fin 0"
| "np_div (Fin a) NInf = Fin 0"
| "np_div PInf (Fin b) = (if 0 \<le> b then PInf else NInf)"
| "np_div NInf (Fin b) = (if 0 \<le> b then NInf else PInf)"
| "np_div PInf PInf = NaN"
| "np_div PInf NInf = NaN"
| "np_div NInf PInf = NaN"
| "np_div NInf NInf = NaN"

text \<open>The comparison \<open>a == b\<close> of two floats: NaN is equal to nothing.\<close>

definition np_eq :: "npfloat \<Rightarrow> npfloat \<Rightarrow> bool" where
  "np_eq a b = (a \<noteq> NaN \<and> a = b)"

text \<open>
  Exceptions are values. \<open>Exception\<close> stands for any other exception class a
  collaborator may raise; all of them derive from Python's \<open>Exception\<close>.
\<close>

datatype exc = KeyError string | ValueError string | IndexError | Exception string

text \<open>A call that may raise returns \<open>Inl\<close> of the exception; \<open>bindS\<close> sequences such calls.\<close>

definition bindS :: "exc + 'a \<Rightarrow> ('a \<Rightarrow> exc + 'b) \<Rightarrow> exc + 'b" where
  "bindS r f = (case r of Inl e \<Rightarrow> Inl e | Inr x \<Rightarrow> f x)"

text \<open>
  A pandas DataFrame: the row labels and the columns in their order, each column a
  name with its cells. Cells are numeric; the dtype of a column is not modelled, so
  an integer column holds \<open>Fin\<close> of integral values. \<open>pd.DataFrame()\<close> is
  \<open>empty_df\<close>.
\<close>

type_synonym series = "npfloat list"

record dataframe =
  df_index :: "int list"
  df_cols :: "(string \<times> series) list"

definition empty_df :: dataframe where
  "empty_df = \<lparr>df_index = [], df_cols = []\<rparr>"

text \<open>\<open>df.empty\<close>: one of the two axes has length 0.\<close>

definition df_empty :: "dataframe \<Rightarrow> bool" where
  "df_empty t = (df_index t = [] \<or> df_cols t = [])"

text \<open>\<open>df[c]\<close> raises KeyError on a column that is not there.\<close>

definition df_getitem :: "dataframe \<Rightarrow> string \<Rightarrow> exc + series" where
  "df_getitem t c = (case map_of (df_cols t) c of None \<Rightarrow> Inl (KeyError c) | Some xs \<Rightarrow> Inr xs)"

text \<open>\<open>df[c] = xs\<close> replaces the column in place, or appends it as the last column.\<close>

definition df_setitem :: "dataframe \<Rightarrow> string \<Rightarrow> series \<Rightarrow> dataframe" where
  "df_setitem t c xs = t\<lparr>df_cols := AList.update c xs (df_cols t)\<rparr>"

text \<open>\<open>df[c] = v\<close> with a scalar \<open>v\<close>: every row gets \<open>v\<close>.\<close>

definition df_setitem_scalar :: "dataframe \<Rightarrow> string \<Rightarrow> npfloat \<Rightarrow> dataframe" where
  "df_setitem_scalar t c v = df_setitem t c (replicate (length (df_index t)) v)"

text \<open>\<open>series == n\<close> for an integer \<open>n\<close>, elementwise.\<close>

fun cell_eq_int :: "npfloat \<Rightarrow> int \<Rightarrow> bool" where
  "cell_eq_int (Fin r) n = (r = of_int n)"
| "cell_eq_int _ n = False"

definition series_eq :: "series \<Rightarrow> int \<Rightarrow> bool list" where
  "series_eq xs n = map (\<lambda>c. cell_eq_int c n) xs"

text \<open>\<open>df[mask]\<close> with a boolean mask: a new frame with the rows where the mask is True.\<close>

definition pick :: "bool list \<Rightarrow> 'a list \<Rightarrow> 'a list" where
  "pick m xs = map snd (filter fst (zip m xs))"

definition df_mask :: "dataframe \<Rightarrow> bool list \<Rightarrow> dataframe" where
  "df_mask t m = \<lparr>df_index = pick m (df_index t),
                  df_cols = map (\<lambda>(c, xs). (c, pick m xs)) (df_cols t)\<rparr>"

text \<open>
  \<open>series.astype(int)\<close>: the target is int64. A finite value is truncated towards
  zero; when the truncated value does not fit into 64 bits the cast gives the most
  negative int64, \<open>-9223372036854775808\<close>. A NaN or an infinity raises (pandas'
  IntCastingNaNError, a ValueError).
\<close>

definition trunc :: "real \<Rightarrow> int" where
  "trunc r = (if 0 \<le> r then \<lfloor>r\<rfloor> else \<lceil>r\<rceil>)"

definition int64_range :: "int \<Rightarrow> bool" where
  "int64_range n = (- (2 ^ 63) \<le> n \<and> n < 2 ^ 63)"

definition cast_int64 :: "real \<Rightarrow> int" where
  "cast_int64 r = (if int64_range (trunc r) then trunc r else - (2 ^ 63))"

fun cell_astype_int :: "npfloat \<Rightarrow> exc + npfloat" where
  "cell_astype_int (Fin r) = Inr (Fin (of_int (cast_int64 r)))"
| "cell_astype_int _ = Inl (ValueError ''Cannot convert non-finite values (NA or inf) to integer'')"

fun series_astype_int :: "series \<Rightarrow> exc + series" where
  "series_astype_int [] = Inr []"
| "series_astype_int (c # cs) =
     (case cell_astype_int c of
        Inl e \<Rightarrow> Inl e
      | Inr v \<Rightarrow> (case series_astype_int cs of Inl e \<Rightarrow> Inl e | Inr vs \<Rightarrow> Inr (v # vs)))"

text \<open>\<open>series.fillna(v)\<close>: the missing cells (NaN) become \<open>v\<close>.\<close>

fun cell_fillna :: "npfloat \<Rightarrow> npfloat \<Rightarrow> npfloat" where
  "cell_fillna v NaN = v"
| "cell_fillna v c = c"

definition series_fillna :: "series \<Rightarrow> npfloat \<Rightarrow> series" where
  "series_fillna xs v = map (cell_fillna v) xs"

text \<open>
  \<open>pd.concat(frames, ignore_index=True)\<close>: the columns are the union of the frames'
  columns in order of first appearance, a frame that lacks a column contributes NaN
  for its rows, and the rows are relabelled \<open>0 .. n-1\<close>.
\<close>

definition first_seen :: "'a list \<Rightarrow> 'a list" where
  "first_seen xs = rev (remdups (rev xs))"

definition column_or_nan :: "string \<Rightarrow> dataframe \<Rightarrow> series" where
  "column_or_nan c t =
     (case map_of (df_cols t) c of
        None \<Rightarrow> replicate (length (df_index t)) NaN
      | Some xs \<Rightarrow> xs)"

definition pd_concat :: "dataframe list \<Rightarrow> dataframe" where
  "pd_concat ts =
     \<lparr>df_index = map int [0 ..< length (concat (map df_index ts))],
      df_cols = map (\<lambda>c. (c, concat (map (column_or_nan c) ts)))
                    (first_seen (concat (map (\<lambda>t. map fst (df_cols t)) ts)))\<rparr>"

section \<open>Segments and collaborators\<close>

text \<open>
  An \<open>mne\<close> Raw segment: its sampling rate \<open>info["sfreq"]\<close> and the samples of each
  channel. \<open>raw.get_data(picks=channel)[0]\<close> is the channel's sample array; an unknown
  channel name raises ValueError.
\<close>

record raw_segment =
  info_sfreq :: npfloat
  channels :: "(string \<times> series) list"

definition get_data :: "raw_segment \<Rightarrow> string \<Rightarrow> exc + series" where
  "get_data raw channel =
     (case map_of (channels raw) channel of
        None \<Rightarrow> Inl (ValueError channel)
      | Some signal \<Rightarrow> Inr signal)"

text \<open>
  The classes \<open>FitBlinks\<close> and \<open>BlinkProperties\<close> are imported from modules that
  are not part of the sources at hand, so they are parameters of the model: the constructor
  of \<open>FitBlinks\<close>, its method \<open>dprocess_segment_raw\<close> (which returns the
  updated fitter), the attribute \<open>frame_blinks\<close>, and the construction of
  \<open>BlinkProperties\<close> followed by reading \<open>.df\<close>. Each call either returns
  a value or raises; each sees the values of its arguments only.
\<close>

record ('p, 'f, 'b) collaborators =
  FitBlinks :: "series \<Rightarrow> dataframe \<Rightarrow> 'p \<Rightarrow> exc + 'f"
  dprocess_segment_raw :: "'f \<Rightarrow> bool \<Rightarrow> exc + 'f"
  frame_blinks :: "'f \<Rightarrow> 'b"
  BlinkProperties_df :: "series \<Rightarrow> 'b \<Rightarrow> npfloat \<Rightarrow> 'p \<Rightarrow> bool \<Rightarrow> exc + dataframe"

section \<open>Program state: the object store and the log\<close>

text \<open>
  Data frames are objects: a variable holds the address of a frame in the store, and
  \<open>rows[c] = ...\<close> writes to the object that \<open>rows\<close> points to. The log collects
  what the function hands to \<open>logger\<close> and \<open>warnings\<close>, in order. The progress bar
  of \<open>tqdm\<close> is not modelled.
\<close>

datatype log_msg =
    Info_computing nat
  | Warn_run_fit
  | Info_empty
  | Warn_skipping nat exc
  | Info_computed nat

record state =
  heap :: "dataframe list"
  logged :: "log_msg list"

type_synonym 'a prog = "state \<Rightarrow> (exc + 'a) \<times> state"

definition ret :: "'a \<Rightarrow> 'a prog" where
  "ret x s = (Inr x, s)"

definition lift :: "exc + 'a \<Rightarrow> 'a prog" where
  "lift r s = (r, s)"

definition bindE :: "'a prog \<Rightarrow> ('a \<Rightarrow> 'b prog) \<Rightarrow> 'b prog" where
  "bindE f g s = (case f s of (Inl e, s') \<Rightarrow> (Inl e, s') | (Inr x, s') \<Rightarrow> g x s')"

definition emit :: "log_msg \<Rightarrow> unit prog" where
  "emit m s = (Inr (), s\<lparr>logged := logged s @ [m]\<rparr>)"

definition load :: "nat \<Rightarrow> dataframe prog" where
  "load a s = (Inr (heap s ! a), s)"

definition store :: "nat \<Rightarrow> dataframe \<Rightarrow> unit prog" where
  "store a t s = (Inr (), s\<lparr>heap := (heap s)[a := t]\<rparr>)"

text \<open>\<open>df.copy()\<close>: a new object with the same contents.\<close>

definition alloc :: "dataframe \<Rightarrow> nat prog" where
  "alloc t s = (Inr (length (heap s)), s\<lparr>heap := heap s @ [t]\<rparr>)"


section \<open>The segment orchestrator\<close>

text \<open>\<open>rows[c] = rows[c].astype(int)\<close> on the object \<open>rows\<close>.\<close>

definition astype_int_column :: "nat \<Rightarrow> string \<Rightarrow> unit prog" where
  "astype_int_column rows c =
     bindE (load rows) (\<lambda>t.
     bindE (lift (df_getitem t c)) (\<lambda>xs.
     bindE (lift (series_astype_int xs)) (\<lambda>ys.
     store rows (df_setitem t c ys))))"

text \<open>
  \<open>if "right_zero" in rows.columns: rows["right_zero"] = rows["right_zero"].fillna(-1).astype(int)\<close>
\<close>

definition fill_right_zero :: "nat \<Rightarrow> unit prog" where
  "fill_right_zero rows =
     bindE (load rows) (\<lambda>t.
     if ''right_zero'' \<in> set (map fst (df_cols t)) then
       bindE (lift (df_getitem t ''right_zero'')) (\<lambda>xs.
       bindE (lift (series_astype_int (series_fillna xs (Fin (- 1))))) (\<lambda>ys.
       store rows (df_setitem t ''right_zero'' ys)))
     else ret ())"

text \<open>The coercions of one segment's working rows, in the order of the source.\<close>

definition coerce_index_columns :: "nat \<Rightarrow> unit prog" where
  "coerce_index_columns rows =
     bindE (astype_int_column rows ''start_blink'') (\<lambda>_.
     bindE (astype_int_column rows ''end_blink'') (\<lambda>_.
     bindE (astype_int_column rows ''outer_start'') (\<lambda>_.
     bindE (astype_int_column rows ''outer_end'') (\<lambda>_.
     bindE (astype_int_column rows ''left_zero'') (\<lambda>_.
     fill_right_zero rows)))))"

text \<open>
  The body of the loop for the segment \<open>raw\<close> at position \<open>seg_id\<close>, in two
  parts. The result \<open>None\<close> is a \<open>continue\<close>; \<open>Some props\<close> is the table
  appended to \<open>all_props\<close>; an exception that is not caught leaves the function.

  \<open>dispatch_segment\<close> is the part from \<open>if rows.empty\<close> on, for the contents
  \<open>rows_df\<close> of the working rows. Only the call of \<open>dprocess_segment_raw\<close>
  stands inside the \<open>try\<close>: the constructor of \<open>FitBlinks\<close> and the
  construction of \<open>BlinkProperties\<close> stand outside.
\<close>

definition dispatch_segment ::
  "('p, 'f, 'b) collaborators \<Rightarrow> npfloat \<Rightarrow> 'p \<Rightarrow> string \<Rightarrow> bool \<Rightarrow>
   nat \<Rightarrow> raw_segment \<Rightarrow> dataframe \<Rightarrow> dataframe option prog" where
  "dispatch_segment H sfreq params channel run_fit seg_id raw rows_df =
     (if df_empty rows_df then ret None
      else
        bindE (lift (get_data raw channel)) (\<lambda>signal.
        bindE (lift (FitBlinks H signal rows_df params)) (\<lambda>fitter.
        (case dprocess_segment_raw H fitter run_fit of
           Inl e \<Rightarrow> bindE (emit (Warn_skipping seg_id e)) (\<lambda>_. ret None)
         | Inr fitter' \<Rightarrow>
             bindE (lift (BlinkProperties_df H signal (frame_blinks H fitter') sfreq params
                            run_fit)) (\<lambda>props.
             ret (Some (df_setitem_scalar props ''seg_id'' (Fin (of_nat seg_id)))))))))"

text \<open>
  \<open>process_segment\<close> selects the rows of the segment from the caller's table, copies
  them into a new object, coerces the copy and hands its contents on.
\<close>

definition process_segment ::
  "('p, 'f, 'b) collaborators \<Rightarrow> nat \<Rightarrow> npfloat \<Rightarrow> 'p \<Rightarrow> string \<Rightarrow> bool \<Rightarrow>
   nat \<Rightarrow> raw_segment \<Rightarrow> dataframe option prog" where
  "process_segment H blink_df sfreq params channel run_fit seg_id raw =
     bindE (load blink_df) (\<lambda>df.
     bindE (lift (df_getitem df ''seg_id'')) (\<lambda>ids.
     bindE (alloc (df_mask df (series_eq ids (int seg_id)))) (\<lambda>rows.
     bindE (coerce_index_columns rows) (\<lambda>_.
     bindE (load rows) (\<lambda>rows_df.
     dispatch_segment H sfreq params channel run_fit seg_id raw rows_df)))))"

text \<open>The loop over \<open>enumerate(segments)\<close>, with \<open>all_props\<close> as accumulator.\<close>

fun segments_loop ::
  "('p, 'f, 'b) collaborators \<Rightarrow> nat \<Rightarrow> npfloat \<Rightarrow> 'p \<Rightarrow> string \<Rightarrow> bool \<Rightarrow>
   (nat \<times> raw_segment) list \<Rightarrow> dataframe list \<Rightarrow> dataframe list prog" where
  "segments_loop H blink_df sfreq params channel run_fit [] all_props = ret all_props"
| "segments_loop H blink_df sfreq params channel run_fit ((seg_id, raw) # rest) all_props =
     bindE (process_segment H blink_df sfreq params channel run_fit seg_id raw) (\<lambda>r.
       case r of
         None \<Rightarrow> segments_loop H blink_df sfreq params channel run_fit rest all_props
       | Some props \<Rightarrow>
           segments_loop H blink_df sfreq params channel run_fit rest (all_props @ [props]))"

definition compute_segment_blink_properties ::
  "('p, 'f, 'b) collaborators \<Rightarrow> raw_segment list \<Rightarrow> nat \<Rightarrow> 'p \<Rightarrow> string \<Rightarrow> bool \<Rightarrow>
   dataframe prog" where
  "compute_segment_blink_properties H segments blink_df params channel run_fit =
     bindE (emit (Info_computing (length segments))) (\<lambda>_.
     bindE (if run_fit then emit Warn_run_fit else ret ()) (\<lambda>_.
     bindE (load blink_df) (\<lambda>df.
     if df_empty df then bindE (emit Info_empty) (\<lambda>_. ret empty_df)
     else
       let sfreq = (if segments \<noteq> [] then info_sfreq (segments ! 0) else Fin 0) in
       bindE (segments_loop H blink_df sfreq params channel run_fit
                (enumerate 0 segments) []) (\<lambda>all_props.
       if all_props = [] then ret empty_df
       else
         let result = pd_concat all_props in
         bindE (emit (Info_computed (length (df_index result)))) (\<lambda>_. ret result)))))"

section \<open>The line-intersection solver\<close>

text \<open>
  Python indexing \<open>xs[i]\<close>: a negative index counts from the end, an index out of
  range raises IndexError. \<open>signal[idx]\<close> with an index array reads every position.
\<close>

definition py_index :: "'a list \<Rightarrow> int \<Rightarrow> exc + 'a" where
  "py_index xs i =
     (if 0 \<le> i \<and> i < int (length xs) then Inr (xs ! nat i)
      else if - int (length xs) \<le> i \<and> i < 0 then Inr (xs ! nat (int (length xs) + i))
      else Inl IndexError)"

fun np_take :: "series \<Rightarrow> int list \<Rightarrow> exc + series" where
  "np_take signal [] = Inr []"
| "np_take signal (i # idx) =
     (case py_index signal i of
        Inl e \<Rightarrow> Inl e
      | Inr v \<Rightarrow> (case np_take signal idx of Inl e \<Rightarrow> Inl e | Inr vs \<Rightarrow> Inr (v # vs)))"

text \<open>
  The functions \<open>polyfitMatlab\<close>, \<open>polyvalMatlab\<close>, \<open>corrMatlab\<close>,
  \<open>get_intersection\<close> and \<open>get_line_intersection_slope\<close> are imported from
  modules that are not part of the sources at hand; they are parameters. A fit returns
  the coefficients \<open>p\<close>, a structure \<open>S\<close> and \<open>mu = [center, scale]\<close>.
\<close>

record ('s, 'd, 'c) fit_collaborators =
  polyfitMatlab :: "int list \<Rightarrow> series \<Rightarrow> nat \<Rightarrow> exc + (series \<times> 's \<times> series)"
  polyvalMatlab :: "series \<Rightarrow> int list \<Rightarrow> 's \<Rightarrow> series \<Rightarrow> exc + (series \<times> 'd)"
  corrMatlab :: "series \<Rightarrow> series \<Rightarrow> exc + (series list \<times> 'c)"
  get_intersection ::
    "series \<Rightarrow> series \<Rightarrow> series \<Rightarrow> series \<Rightarrow> exc + (npfloat \<times> npfloat \<times> npfloat \<times> npfloat)"
  get_line_intersection_slope ::
    "npfloat \<Rightarrow> npfloat \<Rightarrow> npfloat \<Rightarrow> npfloat \<Rightarrow> exc + (npfloat \<times> npfloat)"

text \<open>The tuple that \<open>lines_intersection_matlabx\<close> returns, field by field.\<close>

record intersection_result =
  leftSlope :: npfloat
  rightSlope :: npfloat
  averLeftVelocity :: npfloat
  averRightVelocity :: npfloat
  rightR2 :: npfloat
  leftR2 :: npfloat
  xIntersect :: npfloat
  yIntersect :: npfloat
  leftXIntercept :: npfloat
  rightXIntercept :: npfloat
  xLineCross_l :: npfloat
  yLineCross_l :: npfloat
  xLineCross_r :: npfloat
  yLineCross_r :: npfloat

definition lines_intersection_matlabx ::
  "('s, 'd, 'c) fit_collaborators \<Rightarrow> series \<Rightarrow> int list \<Rightarrow> int list \<Rightarrow>
   exc + intersection_result" where
  "lines_intersection_matlabx F signal xRight xLeft =
     bindS (np_take signal xRight) (\<lambda>yRight.
     bindS (np_take signal xLeft) (\<lambda>yLeft.
     bindS (polyfitMatlab F xLeft yLeft 1) (\<lambda>(pLeft, SLeft, muLeft).
     bindS (polyvalMatlab F pLeft xLeft SLeft muLeft) (\<lambda>(yPred, delta).
     bindS (corrMatlab F yLeft yPred) (\<lambda>(leftR2_m, _).
     bindS (polyfitMatlab F xRight yRight 1) (\<lambda>(pRight, SRight, muRight).
     bindS (polyvalMatlab F pRight xRight SRight muRight) (\<lambda>(yPredRight, delta).
     bindS (corrMatlab F yRight yPredRight) (\<lambda>(rightR2_m, _).
     bindS (get_intersection F pLeft pRight muLeft muRight)
       (\<lambda>(xI, yI, leftXI, rightXI).
     bindS (get_line_intersection_slope F xI yI leftXI rightXI) (\<lambda>(lSlope, rSlope).
     bindS (py_index pLeft 0) (\<lambda>pLeft0.
     bindS (py_index muLeft 1) (\<lambda>muLeft1.
     bindS (py_index pRight 0) (\<lambda>pRight0.
     bindS (py_index muRight 1) (\<lambda>muRight1.
     bindS (bindS (py_index rightR2_m 0) (\<lambda>row. py_index row 0)) (\<lambda>rightR2_00.
     bindS (bindS (py_index leftR2_m 0) (\<lambda>row. py_index row 0)) (\<lambda>leftR2_00.
     Inr \<lparr>leftSlope = lSlope, rightSlope = rSlope,
          averLeftVelocity = np_div pLeft0 muLeft1,
          averRightVelocity = np_div pRight0 muRight1,
          rightR2 = rightR2_00, leftR2 = leftR2_00,
          xIntersect = xI, yIntersect = yI,
          leftXIntercept = leftXI, rightXIntercept = rightXI,
          xLineCross_l = NaN, yLineCross_l = NaN,
          xLineCross_r = NaN, yLineCross_r = NaN\<rparr>))))))))))))))))"

text \<open>
  Modelled from the spec: the function \<open>get_intersection\<close> of the module
  \<open>pyear.matlab_fork.matlab_forking\<close> is missing from the sources. The spec's
  line-intersection solver: each fitted line \<open>y = p[0] * (x - center) / scale + p[1]\<close>
  is transformed back to raw index space, with slope \<open>m = p[0] / scale\<close> and
  intercept \<open>b = p[1] - p[0] * center / scale\<close>; the lines meet at
  \<open>x* = (b2 - b1) / (m1 - m2)\<close>, \<open>y* = m1 * x* + b1\<close>; each line crosses
  \<open>y = 0\<close> at \<open>- b / m\<close>; and when \<open>m1 == m2\<close> the intersection point and
  both x-intercepts are NaN.
\<close>

definition raw_line :: "series \<Rightarrow> series \<Rightarrow> exc + (npfloat \<times> npfloat)" where
  "raw_line p mu =
     bindS (py_index p 0) (\<lambda>p0.
     bindS (py_index p 1) (\<lambda>p1.
     bindS (py_index mu 0) (\<lambda>center.
     bindS (py_index mu 1) (\<lambda>scale.
     Inr (np_div p0 scale, np_sub p1 (np_div (np_mul p0 center) scale))))))"

text \<open>
  Modelled from the spec: \<open>get_intersection\<close>, missing from the sources, as the
  solver of the spec on the two fits \<open>(pLeft, muLeft)\<close> and \<open>(pRight, muRight)\<close>.
  It returns \<open>(x*, y*, left x-intercept, right x-intercept)\<close>.
\<close>

definition get_intersection_spec ::
  "series \<Rightarrow> series \<Rightarrow> series \<Rightarrow> series \<Rightarrow> exc + (npfloat \<times> npfloat \<times> npfloat \<times> npfloat)" where
  "get_intersection_spec pLeft pRight muLeft muRight =
     bindS (raw_line pLeft muLeft) (\<lambda>(m1, b1).
     bindS (raw_line pRight muRight) (\<lambda>(m2, b2).
     if np_eq m1 m2 then Inr (NaN, NaN, NaN, NaN)
     else
       let x = np_div (np_sub b2 b1) (np_sub m1 m2);
           y = np_add (np_mul m1 x) b1
       in Inr (x, y, np_div (np_neg b1) m1, np_div (np_neg b2) m2)))"

section \<open>The program as a function of the values it reads\<close>

text \<open>
  The definitions of this section say what the program computes from the contents of
  the objects it reads, without the store. They are proved equal to the results of the
  program in the next sections and are the tools of the proofs.

  The coercions on the contents of the working rows.
\<close>

definition astype_col :: "string \<Rightarrow> dataframe \<Rightarrow> exc + dataframe" where
  "astype_col c t =
     bindS (df_getitem t c) (\<lambda>xs. bindS (series_astype_int xs) (\<lambda>ys. Inr (df_setitem t c ys)))"

definition fill_right_zero_value :: "dataframe \<Rightarrow> exc + dataframe" where
  "fill_right_zero_value t =
     (if ''right_zero'' \<in> set (map fst (df_cols t)) then
        bindS (df_getitem t ''right_zero'') (\<lambda>xs.
        bindS (series_astype_int (series_fillna xs (Fin (- 1)))) (\<lambda>ys.
        Inr (df_setitem t ''right_zero'' ys)))
      else Inr t)"

definition coerced_rows :: "dataframe \<Rightarrow> exc + dataframe" where
  "coerced_rows t =
     bindS (astype_col ''start_blink'' t) (\<lambda>t.
     bindS (astype_col ''end_blink'' t) (\<lambda>t.
     bindS (astype_col ''outer_start'' t) (\<lambda>t.
     bindS (astype_col ''outer_end'' t) (\<lambda>t.
     bindS (astype_col ''left_zero'' t) fill_right_zero_value))))"

text \<open>
  \<open>tracks r f p\<close>: the program \<open>p\<close> writes to the object at \<open>r\<close> only, it
  returns when \<open>f\<close> does on the contents of that object, leaving the result of
  \<open>f\<close> there, and it raises what \<open>f\<close> raises.
\<close>

definition tracks :: "nat \<Rightarrow> (dataframe \<Rightarrow> exc + dataframe) \<Rightarrow> unit prog \<Rightarrow> bool" where
  "tracks r f p = (\<forall>s. r < length (heap s) \<longrightarrow>
     (case f (heap s ! r) of
        Inl e \<Rightarrow> \<exists>t'. p s = (Inl e, s\<lparr>heap := (heap s)[r := t']\<rparr>)
      | Inr t' \<Rightarrow> p s = (Inr (), s\<lparr>heap := (heap s)[r := t']\<rparr>)))"

text \<open>What \<open>dispatch_segment\<close> returns or raises, and the exception of the fit step that it catches.\<close>

definition dispatch_outcome ::
  "('p, 'f, 'b) collaborators \<Rightarrow> npfloat \<Rightarrow> 'p \<Rightarrow> string \<Rightarrow> bool \<Rightarrow>
   nat \<Rightarrow> raw_segment \<Rightarrow> dataframe \<Rightarrow> exc + dataframe option" where
  "dispatch_outcome H sfreq params channel run_fit seg_id raw rows_df =
     (if df_empty rows_df then Inr None
      else
        bindS (get_data raw channel) (\<lambda>signal.
        bindS (FitBlinks H signal rows_df params) (\<lambda>fitter.
        (case dprocess_segment_raw H fitter run_fit of
           Inl e \<Rightarrow> Inr None
         | Inr fitter' \<Rightarrow>
             bindS (BlinkProperties_df H signal (frame_blinks H fitter') sfreq params run_fit)
               (\<lambda>props.
             Inr (Some (df_setitem_scalar props ''seg_id'' (Fin (of_nat seg_id)))))))))"

definition fit_failure ::
  "('p, 'f, 'b) collaborators \<Rightarrow> 'p \<Rightarrow> string \<Rightarrow> bool \<Rightarrow> raw_segment \<Rightarrow> dataframe \<Rightarrow>
   exc option" where
  "fit_failure H params channel run_fit raw rows_df =
     (if df_empty rows_df then None
      else
        (case get_data raw channel of
           Inl _ \<Rightarrow> None
         | Inr signal \<Rightarrow>
             (case FitBlinks H signal rows_df params of
                Inl _ \<Rightarrow> None
              | Inr fitter \<Rightarrow>
                  (case dprocess_segment_raw H fitter run_fit of
                     Inl e \<Rightarrow> Some e
                   | Inr _ \<Rightarrow> None))))"

text \<open>The warnings, the selected and coerced rows, and the outcome of one pass of the loop body.\<close>

definition warnings_of :: "nat \<Rightarrow> exc option \<Rightarrow> log_msg list" where
  "warnings_of seg_id f = (case f of None \<Rightarrow> [] | Some e \<Rightarrow> [Warn_skipping seg_id e])"

definition selected_rows :: "dataframe \<Rightarrow> nat \<Rightarrow> exc + dataframe" where
  "selected_rows df seg_id =
     bindS (df_getitem df ''seg_id'') (\<lambda>ids.
     coerced_rows (df_mask df (series_eq ids (int seg_id))))"

definition segment_outcome ::
  "('p, 'f, 'b) collaborators \<Rightarrow> dataframe \<Rightarrow> npfloat \<Rightarrow> 'p \<Rightarrow> string \<Rightarrow> bool \<Rightarrow>
   nat \<Rightarrow> raw_segment \<Rightarrow> exc + dataframe option" where
  "segment_outcome H df sfreq params channel run_fit seg_id raw =
     bindS (selected_rows df seg_id)
       (dispatch_outcome H sfreq params channel run_fit seg_id raw)"

definition segment_warnings ::
  "('p, 'f, 'b) collaborators \<Rightarrow> dataframe \<Rightarrow> 'p \<Rightarrow> string \<Rightarrow> bool \<Rightarrow>
   nat \<Rightarrow> raw_segment \<Rightarrow> log_msg list" where
  "segment_warnings H df params channel run_fit seg_id raw =
     (case selected_rows df seg_id of
        Inl _ \<Rightarrow> []
      | Inr rows_df \<Rightarrow> warnings_of seg_id (fit_failure H params channel run_fit raw rows_df))"

text \<open>The loop: what it collects or raises, and what it logs.\<close>

fun loop_outcome ::
  "('p, 'f, 'b) collaborators \<Rightarrow> dataframe \<Rightarrow> npfloat \<Rightarrow> 'p \<Rightarrow> string \<Rightarrow> bool \<Rightarrow>
   (nat \<times> raw_segment) list \<Rightarrow> dataframe list \<Rightarrow> exc + dataframe list" where
  "loop_outcome H df sfreq params channel run_fit [] all_props = Inr all_props"
| "loop_outcome H df sfreq params channel run_fit ((seg_id, raw) # rest) all_props =
     (case segment_outcome H df sfreq params channel run_fit seg_id raw of
        Inl e \<Rightarrow> Inl e
      | Inr None \<Rightarrow> loop_outcome H df sfreq params channel run_fit rest all_props
      | Inr (Some props) \<Rightarrow>
          loop_outcome H df sfreq params channel run_fit rest (all_props @ [props]))"

fun loop_warnings ::
  "('p, 'f, 'b) collaborators \<Rightarrow> dataframe \<Rightarrow> npfloat \<Rightarrow> 'p \<Rightarrow> string \<Rightarrow> bool \<Rightarrow>
   (nat \<times> raw_segment) list \<Rightarrow> log_msg list" where
  "loop_warnings H df sfreq params channel run_fit [] = []"
| "loop_warnings H df sfreq params channel run_fit ((seg_id, raw) # rest) =
     segment_warnings H df params channel run_fit seg_id raw @
     (case segment_outcome H df sfreq params channel run_fit seg_id raw of
        Inl e \<Rightarrow> []
      | Inr _ \<Rightarrow> loop_warnings H df sfreq params channel run_fit rest)"

text \<open>The whole call: the sampling rate it uses, the table it returns and the log it writes.\<close>

definition first_sfreq :: "raw_segment list \<Rightarrow> npfloat" where
  "first_sfreq segments = (if segments \<noteq> [] then info_sfreq (segments ! 0) else Fin 0)"

definition concat_or_empty :: "dataframe list \<Rightarrow> dataframe" where
  "concat_or_empty all_props = (if all_props = [] then empty_df else pd_concat all_props)"

definition compute_outcome ::
  "('p, 'f, 'b) collaborators \<Rightarrow> raw_segment list \<Rightarrow> dataframe \<Rightarrow> 'p \<Rightarrow> string \<Rightarrow> bool \<Rightarrow>
   exc + dataframe" where
  "compute_outcome H segments df params channel run_fit =
     (if df_empty df then Inr empty_df
      else
        bindS (loop_outcome H df (first_sfreq segments) params channel run_fit
                 (enumerate 0 segments) [])
          (\<lambda>all_props. Inr (concat_or_empty all_props)))"

definition compute_log ::
  "('p, 'f, 'b) collaborators \<Rightarrow> raw_segment list \<Rightarrow> dataframe \<Rightarrow> 'p \<Rightarrow> string \<Rightarrow> bool \<Rightarrow>
   log_msg list" where
  "compute_log H segments df params channel run_fit =
     Info_computing (length segments) # (if run_fit then [Warn_run_fit] else []) @
     (if df_empty df then [Info_empty]
      else
        loop_warnings H df (first_sfreq segments) params channel run_fit (enumerate 0 segments) @
        (case loop_outcome H df (first_sfreq segments) params channel run_fit
                (enumerate 0 segments) [] of
           Inl e \<Rightarrow> []
         | Inr all_props \<Rightarrow>
             if all_props = [] then []
             else [Info_computed (length (df_index (pd_concat all_props)))]))"

section \<open>Notions used in the statements\<close>

text \<open>
  \<open>with_rate H r\<close> is \<open>H\<close> with a property calculator that ignores the sampling rate
  it is given and uses \<open>r\<close>.
\<close>

definition with_rate :: "('p, 'f, 'b) collaborators \<Rightarrow> npfloat \<Rightarrow> ('p, 'f, 'b) collaborators" where
  "with_rate H r =
     H\<lparr>BlinkProperties_df := (\<lambda>signal blinks sfreq. BlinkProperties_df H signal blinks r)\<rparr>"

text \<open>
  The coercion as the specification words it: the five index columns are coerced to
  integer; a \<open>right_zero\<close> column, when there is one, has its missing values filled
  with \<open>-1\<close> and is coerced to integer; every other column, the order of the columns
  and the row labels stay as they are.
\<close>

definition index_columns :: "string list" where
  "index_columns = [''start_blink'', ''end_blink'', ''outer_start'', ''outer_end'', ''left_zero'']"

fun to_integer :: "npfloat \<Rightarrow> npfloat" where
  "to_integer (Fin r) = Fin (of_int (trunc r))"
| "to_integer c = c"

definition coerced_column :: "string \<Rightarrow> series \<Rightarrow> series" where
  "coerced_column c xs =
     (if c \<in> set index_columns then map to_integer xs
      else if c = ''right_zero'' then map (\<lambda>x. to_integer (cell_fillna (Fin (- 1)) x)) xs
      else xs)"

definition map_cols :: "(string \<Rightarrow> series \<Rightarrow> series) \<Rightarrow> dataframe \<Rightarrow> dataframe" where
  "map_cols g t = t\<lparr>df_cols := map (\<lambda>(c, xs). (c, g c xs)) (df_cols t)\<rparr>"

definition coerce_spec :: "dataframe \<Rightarrow> dataframe" where
  "coerce_spec t = map_cols coerced_column t"

text \<open>
  The rows that can be coerced: the column names are distinct, the five index columns
  are there and hold finite numbers whose integer part fits into int64, and a
  \<open>right_zero\<close> column holds such numbers or NaN.
\<close>

fun fits_int64 :: "npfloat \<Rightarrow> bool" where
  "fits_int64 (Fin r) = int64_range (trunc r)"
| "fits_int64 c = False"

definition coercible :: "dataframe \<Rightarrow> bool" where
  "coercible t =
     (distinct (map fst (df_cols t)) \<and>
      list_all (\<lambda>c. case map_of (df_cols t) c of None \<Rightarrow> False | Some xs \<Rightarrow> list_all fits_int64 xs)
        index_columns \<and>
      (case map_of (df_cols t) ''right_zero'' of
         None \<Rightarrow> True
       | Some xs \<Rightarrow> list_all (\<lambda>x. fits_int64 x \<or> x = NaN) xs))"

text \<open>
  A well-formed candidate table has a \<open>seg_id\<close> column with one cell per row, and
  the five index columns.
\<close>

definition well_formed_candidates :: "dataframe \<Rightarrow> bool" where
  "well_formed_candidates df =
     ((case map_of (df_cols df) ''seg_id'' of
         None \<Rightarrow> False
       | Some ids \<Rightarrow> length ids = length (df_index df)) \<and>
      list_all (\<lambda>c. c \<in> set (map fst (df_cols df))) index_columns)"

text \<open>
  \<open>mask_by_seg_id P df\<close> keeps the rows of \<open>df\<close> whose \<open>seg_id\<close> satisfies
  \<open>P\<close>. A \<open>seg_id\<close> matches a sequence of \<open>n\<close> segments when it equals one of
  the positions \<open>0 .. n-1\<close>; it is out of range when it is negative or at least
  \<open>n\<close>.
\<close>

definition mask_by_seg_id :: "(npfloat \<Rightarrow> bool) \<Rightarrow> dataframe \<Rightarrow> dataframe" where
  "mask_by_seg_id P df =
     (case map_of (df_cols df) ''seg_id'' of
        None \<Rightarrow> df
      | Some ids \<Rightarrow> df_mask df (map P ids))"

definition matches_segment :: "nat \<Rightarrow> npfloat \<Rightarrow> bool" where
  "matches_segment n c = list_ex (\<lambda>i. cell_eq_int c (int i)) [0 ..< n]"

fun out_of_range :: "nat \<Rightarrow> npfloat \<Rightarrow> bool" where
  "out_of_range n (Fin r) = (r < 0 \<or> real n \<le> r)"
| "out_of_range n PInf = True"
| "out_of_range n NInf = True"
| "out_of_range n NaN = False"

definition keep_matching :: "nat \<Rightarrow> dataframe \<Rightarrow> dataframe" where
  "keep_matching n = mask_by_seg_id (matches_segment n)"

definition drop_out_of_range :: "nat \<Rightarrow> dataframe \<Rightarrow> dataframe" where
  "drop_out_of_range n = mask_by_seg_id (\<lambda>c. \<not> out_of_range n c)"


text \<open>
  A property table comes from segment \<open>k\<close> when its \<open>seg_id\<close> column holds \<open>k\<close>
  in every row, as after \<open>props["seg_id"] = k\<close>. A table without rows comes from
  every segment.
\<close>

definition from_segment :: "nat \<Rightarrow> dataframe \<Rightarrow> bool" where
  "from_segment k p =
     (map_of (df_cols p) ''seg_id'' = Some (replicate (length (df_index p)) (Fin (of_nat k))))"

text \<open>A table without rows: no row labels and no cells.\<close>

definition zero_rows :: "dataframe \<Rightarrow> bool" where
  "zero_rows t = (df_index t = [] \<and> list_all (\<lambda>p. snd p = []) (df_cols t))"

text \<open>
  The tables that the loop bodies yield for the segments in their order, every body run
  from the state \<open>s\<close> with the sampling rate \<open>sfreq\<close>; a body that skips its
  segment or raises yields none.
\<close>

definition collected_tables ::
  "('p, 'f, 'b) collaborators \<Rightarrow> nat \<Rightarrow> npfloat \<Rightarrow> 'p \<Rightarrow> string \<Rightarrow> bool \<Rightarrow>
   raw_segment list \<Rightarrow> state \<Rightarrow> dataframe list" where
  "collected_tables H blink_df sfreq params channel run_fit segments s =
     concat (map (\<lambda>(k, raw).
                    case fst (process_segment H blink_df sfreq params channel run_fit k raw s) of
                      Inr (Some p) \<Rightarrow> [p]
                    | _ \<Rightarrow> [])
                 (enumerate 0 segments))"

section \<open>Concrete inputs\<close>

text \<open>
  Collaborators for running the model on examples. The fitter keeps the signal and the
  rows; the fit step raises when the signal holds a NaN; the property table is the
  fitted rows with a column \<open>duration_zero = (right_zero - left_zero) / sfreq\<close>.
\<close>

definition ex_duration_zero :: "dataframe \<Rightarrow> npfloat \<Rightarrow> series" where
  "ex_duration_zero t sfreq =
     map (\<lambda>(l, r). np_div (np_sub r l) sfreq)
         (zip (column_or_nan ''left_zero'' t) (column_or_nan ''right_zero'' t))"

definition ex_collab :: "(unit, series \<times> dataframe, dataframe) collaborators" where
  "ex_collab =
     \<lparr>FitBlinks = (\<lambda>signal rows params. Inr (signal, rows)),
      dprocess_segment_raw =
        (\<lambda>fitter run_fit.
           if NaN \<in> set (fst fitter) then Inl (Exception ''NaN in fit range'') else Inr fitter),
      frame_blinks = snd,
      BlinkProperties_df =
        (\<lambda>signal blinks sfreq params fitted.
           Inr (df_setitem blinks ''duration_zero'' (ex_duration_zero blinks sfreq)))\<rparr>"

text \<open>
  The same collaborators, except that the fit step accepts every signal and the
  property computation raises on a signal that holds a NaN.
\<close>

definition ex_collab_strict :: "(unit, series \<times> dataframe, dataframe) collaborators" where
  "ex_collab_strict =
     \<lparr>FitBlinks = (\<lambda>signal rows params. Inr (signal, rows)),
      dprocess_segment_raw = (\<lambda>fitter run_fit. Inr fitter),
      frame_blinks = snd,
      BlinkProperties_df =
        (\<lambda>signal blinks sfreq params fitted.
           if NaN \<in> set signal then Inl (Exception ''NaN in signal'')
           else Inr (df_setitem blinks ''duration_zero'' (ex_duration_zero blinks sfreq)))\<rparr>"

text \<open>
  A candidate table with one blink in segment 0, one in segment 1 and one row whose
  \<open>seg_id\<close> matches no segment, and two segments with different sampling rates.
\<close>

definition ex_blinks :: dataframe where
  "ex_blinks =
     \<lparr>df_index = [0, 1, 2],
      df_cols =
        [(''seg_id'', [Fin 0, Fin 1, Fin 5]),
         (''start_blink'', [Fin 3, Fin 2, NaN]),
         (''end_blink'', [Fin 5, Fin 4, Fin 5]),
         (''outer_start'', [Fin 0, Fin 0, Fin 0]),
         (''outer_end'', [Fin 9, Fin 9, Fin 9]),
         (''left_zero'', [Fin 1, Fin 1, Fin 1]),
         (''right_zero'', [Fin 6, Fin 7, Fin 1])]\<rparr>"

definition ex_no_blinks :: dataframe where
  "ex_no_blinks = \<lparr>df_index = [], df_cols = [(''seg_id'', [])]\<rparr>"

definition ex_segments :: "raw_segment list" where
  "ex_segments =
     [\<lparr>info_sfreq = Fin 250, channels = [(''EEG-E8'', [Fin 1, Fin 2])]\<rparr>,
      \<lparr>info_sfreq = Fin 100, channels = [(''EEG-E8'', [Fin 3, Fin 2])]\<rparr>]"

definition ex_segments_nan :: "raw_segment list" where
  "ex_segments_nan =
     [\<lparr>info_sfreq = Fin 250, channels = [(''EEG-E8'', [Fin 1, Fin 2])]\<rparr>,
      \<lparr>info_sfreq = Fin 100, channels = [(''EEG-E8'', [NaN, NaN])]\<rparr>]"

definition ex_state :: state where
  "ex_state = \<lparr>heap = [ex_blinks], logged = []\<rparr>"

definition ex_state_empty :: state where
  "ex_state_empty = \<lparr>heap = [ex_no_blinks], logged = []\<rparr>"

text \<open>The same two segments, the second one with another sampling rate.\<close>

definition ex_segments_rate :: "raw_segment list" where
  "ex_segments_rate =
     [\<lparr>info_sfreq = Fin 250, channels = [(''EEG-E8'', [Fin 1, Fin 2])]\<rparr>,
      \<lparr>info_sfreq = Fin 500, channels = [(''EEG-E8'', [Fin 3, Fin 2])]\<rparr>]"

text \<open>A later state: the candidate table lives at another address, after earlier log output.\<close>

definition ex_state_later :: state where
  "ex_state_later = \<lparr>heap = [ex_no_blinks, ex_blinks], logged = [Info_empty]\<rparr>"

text \<open>
  Collaborators for the solver: the fit of every flank is the line of slope 2 through
  \<open>(0, 1)\<close> with \<open>mu = [0, 1]\<close>, so the two flanks are parallel; the intersection
  is the solver of the spec.
\<close>

definition ex_fit :: "(unit, unit, unit) fit_collaborators" where
  "ex_fit =
     \<lparr>polyfitMatlab = (\<lambda>x y n. Inr ([Fin 2, Fin 1], (), [Fin 0, Fin 1])),
      polyvalMatlab = (\<lambda>p x S mu. Inr (map (\<lambda>i. Fin (2 * of_int i + 1)) x, ())),
      corrMatlab = (\<lambda>y yPred. Inr ([[Fin 1]], ())),
      get_intersection = get_intersection_spec,
      get_line_intersection_slope = (\<lambda>xI yI leftXI rightXI. Inr (NaN, NaN))\<rparr>"

definition ex_signal :: series where
  "ex_signal = [Fin 1, Fin 3, Fin 5, Fin 7]"

text \<open>
  A candidate table whose index columns arrive as floats, one of them with a
  fraction, with a missing \<open>right_zero\<close> and a column that is not an index.
\<close>

definition ex_float_blinks :: dataframe where
  "ex_float_blinks =
     \<lparr>df_index = [4],
      df_cols =
        [(''seg_id'', [Fin 0]),
         (''start_blink'', [Fin (7 / 2)]),
         (''end_blink'', [Fin 5]),
         (''outer_start'', [Fin 0]),
         (''outer_end'', [Fin 9]),
         (''left_zero'', [Fin (- 3 / 2)]),
         (''right_zero'', [NaN]),
         (''amplitude'', [Fin (1 / 2)])]\<rparr>"

definition ex_state_float :: state where
  "ex_state_float = \<lparr>heap = [ex_float_blinks], logged = []\<rparr>"

text \<open>
  States that hold the example table restricted to the rows that match one of two
  segments, to the rows that are in range for two segments, and without the rows of
  segment 1.
\<close>

definition ex_state_matching :: state where
  "ex_state_matching = \<lparr>heap = [keep_matching 2 ex_blinks], logged = []\<rparr>"

definition ex_state_in_range :: state where
  "ex_state_in_range = \<lparr>heap = [drop_out_of_range 2 ex_blinks], logged = []\<rparr>"


section \<open>Properties of the model\<close>

lemma state_heap_id: "s\<lparr>heap := (heap s)[r := heap s ! r]\<rparr> = s"
  by simp

lemma tracks_astype: "tracks r (astype_col c) (astype_int_column r c)"
  unfolding tracks_def
proof (intro allI impI)
  fix s :: state
  assume "r < length (heap s)"
  have id: "s = s\<lparr>heap := (heap s)[r := heap s ! r]\<rparr>" by simp
  show "case astype_col c (heap s ! r) of
          Inl e \<Rightarrow> \<exists>t'. astype_int_column r c s = (Inl e, s\<lparr>heap := (heap s)[r := t']\<rparr>)
        | Inr t' \<Rightarrow> astype_int_column r c s = (Inr (), s\<lparr>heap := (heap s)[r := t']\<rparr>)"
    by (auto simp: astype_col_def astype_int_column_def bindS_def bindE_def load_def lift_def
        store_def split: sum.splits intro: exI[of _ "heap s ! r"])
qed

lemma tracks_fill: "tracks r fill_right_zero_value (fill_right_zero r)"
  unfolding tracks_def
proof (intro allI impI)
  fix s :: state
  assume "r < length (heap s)"
  show "case fill_right_zero_value (heap s ! r) of
          Inl e \<Rightarrow> \<exists>t'. fill_right_zero r s = (Inl e, s\<lparr>heap := (heap s)[r := t']\<rparr>)
        | Inr t' \<Rightarrow> fill_right_zero r s = (Inr (), s\<lparr>heap := (heap s)[r := t']\<rparr>)"
    by (auto simp: fill_right_zero_value_def fill_right_zero_def bindS_def bindE_def load_def
        lift_def store_def ret_def split: sum.splits intro: exI[of _ "heap s ! r"])
qed

lemma tracks_bind:
  assumes "tracks r f p" and "tracks r g q"
  shows "tracks r (\<lambda>t. bindS (f t) g) (bindE p (\<lambda>_. q))"
  unfolding tracks_def
proof (intro allI impI)
  fix s :: state
  assume r: "r < length (heap s)"
  show "case bindS (f (heap s ! r)) g of
          Inl e \<Rightarrow> \<exists>t'. bindE p (\<lambda>_. q) s = (Inl e, s\<lparr>heap := (heap s)[r := t']\<rparr>)
        | Inr t' \<Rightarrow> bindE p (\<lambda>_. q) s = (Inr (), s\<lparr>heap := (heap s)[r := t']\<rparr>)"
  proof (cases "f (heap s ! r)")
    case (Inl e)
    from assms(1)[unfolded tracks_def, rule_format, OF r] Inl
    obtain t' where "p s = (Inl e, s\<lparr>heap := (heap s)[r := t']\<rparr>)"
      by auto
    with Inl show ?thesis by (auto simp: bindS_def bindE_def)
  next
    case (Inr t1)
    from assms(1)[unfolded tracks_def, rule_format, OF r] Inr
    have p: "p s = (Inr (), s\<lparr>heap := (heap s)[r := t1]\<rparr>)"
      by auto
    let ?s1 = "s\<lparr>heap := (heap s)[r := t1]\<rparr>"
    have r1: "r < length (heap ?s1)" and h1: "heap ?s1 ! r = t1" using r by simp_all
    from assms(2) r1 have
      "case g (heap ?s1 ! r) of
          Inl e \<Rightarrow> \<exists>t'. q ?s1 = (Inl e, ?s1\<lparr>heap := (heap ?s1)[r := t']\<rparr>)
        | Inr t' \<Rightarrow> q ?s1 = (Inr (), ?s1\<lparr>heap := (heap ?s1)[r := t']\<rparr>)"
      unfolding tracks_def by blast
    with Inr p h1 show ?thesis
      by (auto simp: bindS_def bindE_def split: sum.splits)
  qed
qed

lemma tracks_coerce: "tracks r coerced_rows (coerce_index_columns r)"
  unfolding coerced_rows_def coerce_index_columns_def
  by (intro tracks_bind tracks_astype tracks_fill)

lemma dispatch_segment_run:
  "dispatch_segment H sfreq params channel run_fit seg_id raw rows_df s =
     (dispatch_outcome H sfreq params channel run_fit seg_id raw rows_df,
      s\<lparr>logged := logged s @ warnings_of seg_id (fit_failure H params channel run_fit raw rows_df)\<rparr>)"
  by (simp add: dispatch_segment_def dispatch_outcome_def fit_failure_def warnings_of_def
      bindE_def bindS_def lift_def ret_def emit_def split: sum.splits)

lemma process_segment_run:
  assumes a: "a < length (heap s)"
  shows "\<exists>hs. process_segment H a sfreq params channel run_fit seg_id raw s =
           (segment_outcome H (heap s ! a) sfreq params channel run_fit seg_id raw,
            s\<lparr>heap := heap s @ hs,
              logged := logged s @ segment_warnings H (heap s ! a) params channel run_fit seg_id raw\<rparr>)"
proof (cases "df_getitem (heap s ! a) ''seg_id''")
  case (Inl e)
  then have "process_segment H a sfreq params channel run_fit seg_id raw s = (Inl e, s)"
    by (simp add: process_segment_def bindE_def load_def lift_def)
  with Inl show ?thesis
    by (intro exI[of _ "[]"])
       (simp add: segment_outcome_def segment_warnings_def selected_rows_def bindS_def)
next
  case (Inr ids)
  let ?m = "df_mask (heap s ! a) (series_eq ids (int seg_id))"
  let ?r = "length (heap s)"
  let ?s1 = "s\<lparr>heap := heap s @ [?m]\<rparr>"
  have r1: "?r < length (heap ?s1)" and m: "heap ?s1 ! ?r = ?m" by simp_all
  have unfold: "process_segment H a sfreq params channel run_fit seg_id raw s =
      (case coerce_index_columns ?r ?s1 of
         (Inl e, s') \<Rightarrow> (Inl e, s')
       | (Inr u, s') \<Rightarrow>
           dispatch_segment H sfreq params channel run_fit seg_id raw (heap s' ! ?r) s')"
    using Inr by (simp add: process_segment_def bindE_def load_def lift_def alloc_def
        split: prod.splits sum.splits)
  note tr = tracks_coerce[unfolded tracks_def, rule_format, OF r1, unfolded m]
  show ?thesis
  proof (cases "coerced_rows ?m")
    case (Inl e)
    with tr obtain t' where
      "coerce_index_columns ?r ?s1 = (Inl e, ?s1\<lparr>heap := (heap ?s1)[?r := t']\<rparr>)"
      by auto
    with unfold Inl Inr show ?thesis
      by (intro exI[of _ "[t']"])
         (simp add: segment_outcome_def segment_warnings_def selected_rows_def bindS_def)
  next
    case (Inr rows_df)
    with tr have "coerce_index_columns ?r ?s1 = (Inr (), ?s1\<lparr>heap := (heap ?s1)[?r := rows_df]\<rparr>)"
      by auto
    with unfold Inr \<open>df_getitem (heap s ! a) ''seg_id'' = Inr ids\<close> show ?thesis
      by (intro exI[of _ "[rows_df]"])
         (simp add: segment_outcome_def segment_warnings_def selected_rows_def bindS_def
            dispatch_segment_run)
  qed
qed

lemma segments_loop_run:
  "a < length (heap s) \<Longrightarrow>
   \<exists>hs. segments_loop H a sfreq params channel run_fit es acc s =
     (loop_outcome H (heap s ! a) sfreq params channel run_fit es acc,
      s\<lparr>heap := heap s @ hs,
        logged := logged s @ loop_warnings H (heap s ! a) sfreq params channel run_fit es\<rparr>)"
proof (induction es arbitrary: acc s)
  case Nil
  then show ?case by (intro exI[of _ "[]"]) (simp add: ret_def)
next
  case (Cons x es)
  obtain seg_id raw where x: "x = (seg_id, raw)" by (cases x)
  let ?df = "heap s ! a"
  from process_segment_run[OF Cons.prems, of H sfreq params channel run_fit seg_id raw]
  obtain hs where step: "process_segment H a sfreq params channel run_fit seg_id raw s =
      (segment_outcome H ?df sfreq params channel run_fit seg_id raw,
       s\<lparr>heap := heap s @ hs,
         logged := logged s @ segment_warnings H ?df params channel run_fit seg_id raw\<rparr>)"
    by blast
  let ?s1 = "s\<lparr>heap := heap s @ hs,
         logged := logged s @ segment_warnings H ?df params channel run_fit seg_id raw\<rparr>"
  have a1: "a < length (heap ?s1)" and df1: "heap ?s1 ! a = ?df"
    using Cons.prems by (simp_all add: nth_append)
  show ?case
  proof (cases "segment_outcome H ?df sfreq params channel run_fit seg_id raw")
    case (Inl e)
    with step x show ?thesis
      by (intro exI[of _ hs]) (simp add: bindE_def)
  next
    case (Inr r)
    from Cons.IH[OF a1, of "case r of None \<Rightarrow> acc | Some p \<Rightarrow> acc @ [p]"]
    obtain hs' where rest:
      "segments_loop H a sfreq params channel run_fit es
          (case r of None \<Rightarrow> acc | Some p \<Rightarrow> acc @ [p]) ?s1 =
        (loop_outcome H ?df sfreq params channel run_fit es
           (case r of None \<Rightarrow> acc | Some p \<Rightarrow> acc @ [p]),
         ?s1\<lparr>heap := heap ?s1 @ hs',
             logged := logged ?s1 @ loop_warnings H ?df sfreq params channel run_fit es\<rparr>)"
      unfolding df1 by blast
    with step x Inr show ?thesis
      by (intro exI[of _ "hs @ hs'"]) (cases r; simp add: bindE_def)
  qed
qed

lemma compute_run:
  assumes a: "a < length (heap s)"
  shows "\<exists>hs. compute_segment_blink_properties H segments a params channel run_fit s =
     (compute_outcome H segments (heap s ! a) params channel run_fit,
      s\<lparr>heap := heap s @ hs,
        logged := logged s @ compute_log H segments (heap s ! a) params channel run_fit\<rparr>)"
proof -
  let ?df = "heap s ! a"
  let ?pre = "Info_computing (length segments) # (if run_fit then [Warn_run_fit] else [])"
  let ?s0 = "s\<lparr>logged := logged s @ ?pre\<rparr>"
  have a0: "a < length (heap ?s0)" and df0: "heap ?s0 ! a = ?df" using a by simp_all
  show ?thesis
  proof (cases "df_empty ?df")
    case True
    then show ?thesis
      by (intro exI[of _ "[]"])
         (simp add: compute_segment_blink_properties_def compute_outcome_def compute_log_def
            bindE_def emit_def ret_def load_def)
  next
    case False
    from segments_loop_run[OF a0, of H "first_sfreq segments" params channel run_fit
        "enumerate 0 segments" "[]"]
    obtain hs where loop:
      "segments_loop H a (first_sfreq segments) params channel run_fit (enumerate 0 segments) [] ?s0 =
        (loop_outcome H ?df (first_sfreq segments) params channel run_fit (enumerate 0 segments) [],
         ?s0\<lparr>heap := heap ?s0 @ hs,
            logged := logged ?s0 @ loop_warnings H ?df (first_sfreq segments) params channel
                        run_fit (enumerate 0 segments)\<rparr>)"
      unfolding df0 by blast
    have unfold: "compute_segment_blink_properties H segments a params channel run_fit s =
      (case segments_loop H a (first_sfreq segments) params channel run_fit
              (enumerate 0 segments) [] ?s0 of
         (Inl e, s') \<Rightarrow> (Inl e, s')
       | (Inr all_props, s') \<Rightarrow>
           if all_props = [] then (Inr empty_df, s')
           else (Inr (pd_concat all_props),
                 s'\<lparr>logged := logged s' @ [Info_computed (length (df_index (pd_concat all_props)))]\<rparr>))"
      using False
      by (simp add: compute_segment_blink_properties_def bindE_def emit_def ret_def load_def
          first_sfreq_def Let_def split: prod.splits sum.splits)
    show ?thesis
      unfolding unfold loop
      using False
      by (intro exI[of _ hs])
         (simp add: compute_outcome_def compute_log_def bindS_def concat_or_empty_def
            split: sum.splits)
  qed
qed

lemma get_data_channels:
  "channels raw' = channels raw \<Longrightarrow> get_data raw' channel = get_data raw channel"
  unfolding get_data_def by (erule arg_cong)

lemma dispatch_segment_channels:
  assumes "channels raw' = channels raw"
  shows "dispatch_segment H sfreq params channel run_fit seg_id raw' rows_df =
         dispatch_segment H sfreq params channel run_fit seg_id raw rows_df"
  unfolding dispatch_segment_def get_data_channels[OF assms] by (rule refl)

lemma process_segment_channels:
  assumes "channels raw' = channels raw"
  shows "process_segment H a sfreq params channel run_fit seg_id raw' =
         process_segment H a sfreq params channel run_fit seg_id raw"
  unfolding process_segment_def dispatch_segment_channels[OF assms] by (rule refl)

lemma segments_loop_channels:
  "list_all2 (\<lambda>x y. fst x = fst y \<and> channels (snd x) = channels (snd y)) es' es \<Longrightarrow>
   segments_loop H a sfreq params channel run_fit es' acc =
   segments_loop H a sfreq params channel run_fit es acc"
proof (induction es' es arbitrary: acc rule: list_all2_induct)
  case Nil
  show ?case by simp
next
  case (Cons x xs y ys)
  obtain i r where x: "x = (i, r)" by (cases x)
  obtain j r' where y: "y = (j, r')" by (cases y)
  from Cons.hyps(1) x y have ij: "i = j" and ch: "channels r = channels r'" by simp_all
  show ?case
    unfolding x y ij
    by (simp add: process_segment_channels[OF ch] Cons.IH)
qed

lemma enumerate_channels:
  "length segments' = length segments \<Longrightarrow>
   \<forall>i<length segments. channels (segments' ! i) = channels (segments ! i) \<Longrightarrow>
   list_all2 (\<lambda>x y. fst x = fst y \<and> channels (snd x) = channels (snd y))
     (enumerate n segments') (enumerate n segments)"
  by (simp add: list_all2_conv_all_nth nth_enumerate_eq)

lemma dispatch_segment_with_rate:
  "dispatch_segment (with_rate H r) sfreq params channel run_fit seg_id raw rows_df =
   dispatch_segment H r params channel run_fit seg_id raw rows_df"
  by (simp add: dispatch_segment_def with_rate_def cong: sum.case_cong)

lemma process_segment_with_rate:
  "process_segment (with_rate H r) a sfreq params channel run_fit seg_id raw =
   process_segment H a r params channel run_fit seg_id raw"
  unfolding process_segment_def dispatch_segment_with_rate by (rule refl)

lemma segments_loop_with_rate:
  "segments_loop (with_rate H r) a sfreq params channel run_fit es acc =
   segments_loop H a r params channel run_fit es acc"
  by (induction es arbitrary: acc) (auto simp: process_segment_with_rate)

lemma py_index_0: "py_index xs 0 = Inr v \<Longrightarrow> 0 < length xs \<and> v = xs ! 0"
  by (auto simp: py_index_def Let_def split: if_splits)

lemma py_index_1: "py_index xs 1 = Inr v \<Longrightarrow> 1 < length xs \<and> v = xs ! 1"
  by (auto simp: py_index_def Let_def split: if_splits)

lemma raw_line_slope:
  "raw_line p mu = Inr (m, b) \<Longrightarrow> \<exists>p0 scale. py_index p 0 = Inr p0 \<and> py_index mu 1 = Inr scale \<and> m = np_div p0 scale"
  by (auto simp: raw_line_def bindS_def split: sum.splits)

lemma series_astype_int_fits:
  "list_all fits_int64 xs \<Longrightarrow> series_astype_int xs = Inr (map to_integer xs)"
proof (induction xs)
  case Nil
  show ?case by simp
next
  case (Cons x xs)
  then show ?case by (cases x) (simp_all add: cast_int64_def)
qed

lemma series_astype_int_filled:
  "list_all (\<lambda>x. fits_int64 x \<or> x = NaN) xs \<Longrightarrow>
   series_astype_int (series_fillna xs (Fin (- 1))) =
     Inr (map (\<lambda>x. to_integer (cell_fillna (Fin (- 1)) x)) xs)"
proof (induction xs)
  case Nil
  show ?case by (simp add: series_fillna_def)
next
  case (Cons x xs)
  then show ?case
    by (cases x) (simp_all add: series_fillna_def cast_int64_def int64_range_def trunc_def)
qed

lemma update_as_map:
  "distinct (map fst cols) \<Longrightarrow> map_of cols c = Some xs \<Longrightarrow>
   AList.update c (f xs) cols = map (\<lambda>(c', ys). (c', if c' = c then f ys else ys)) cols"
proof (induction cols)
  case Nil
  then show ?case by simp
next
  case (Cons p cols)
  obtain c' ys where p: "p = (c', ys)" by (cases p)
  show ?case
  proof (cases "c' = c")
    case True
    with Cons.prems p have "xs = ys" and "c \<notin> fst ` set cols" by auto
    then have "map (\<lambda>(c', ys). (c', if c' = c then f ys else ys)) cols = cols"
      by (intro map_idI) (auto simp: image_iff)
    with True p \<open>xs = ys\<close> show ?thesis by simp
  next
    case False
    with Cons p show ?thesis by simp
  qed
qed

lemma map_absent:
  "map_of cols c = None \<Longrightarrow>
   map (\<lambda>(c', ys). (c', if c' = c then f ys else ys)) cols = cols"
  by (intro map_idI) (auto simp: map_of_eq_None_iff image_iff)

lemma map_cols_keys: "map fst (df_cols (map_cols g t)) = map fst (df_cols t)"
  by (simp add: map_cols_def comp_def case_prod_unfold)

lemma map_of_keyed:
  "map_of (map (\<lambda>(c, xs). (c, g c xs)) cols) c = map_option (g c) (map_of cols c)"
  by (induction cols) auto

lemma map_cols_lookup:
  "map_of (df_cols (map_cols g t)) c = map_option (g c) (map_of (df_cols t) c)"
  by (simp add: map_cols_def map_of_keyed)

lemma map_cols_comp:
  "map_cols g (map_cols h t) = map_cols (\<lambda>c xs. g c (h c xs)) t"
  by (simp add: map_cols_def comp_def case_prod_unfold)

lemma astype_col_map:
  assumes "distinct (map fst (df_cols t))" and "map_of (df_cols t) c = Some xs"
    and "list_all fits_int64 xs"
  shows "astype_col c t = Inr (map_cols (\<lambda>c' ys. if c' = c then map to_integer ys else ys) t)"
  using assms
  by (simp add: astype_col_def df_getitem_def bindS_def series_astype_int_fits df_setitem_def
      map_cols_def update_as_map[where f = "map to_integer"])

lemma fill_right_zero_map:
  assumes "distinct (map fst (df_cols t))"
    and "case map_of (df_cols t) ''right_zero'' of
           None \<Rightarrow> True
         | Some xs \<Rightarrow> list_all (\<lambda>x. fits_int64 x \<or> x = NaN) xs"
  shows "fill_right_zero_value t =
     Inr (map_cols (\<lambda>c' ys. if c' = ''right_zero''
            then map (\<lambda>x. to_integer (cell_fillna (Fin (- 1)) x)) ys else ys) t)"
proof (cases "map_of (df_cols t) ''right_zero''")
  case None
  then have "''right_zero'' \<notin> set (map fst (df_cols t))"
    by (simp add: map_of_eq_None_iff)
  with None show ?thesis
    by (simp add: fill_right_zero_value_def map_cols_def map_absent)
next
  case (Some xs)
  then have "''right_zero'' \<in> set (map fst (df_cols t))"
    by (metis domI dom_map_of_conv_image_fst set_map)
  with Some assms show ?thesis
    by (simp add: fill_right_zero_value_def df_getitem_def bindS_def series_astype_int_filled
        df_setitem_def map_cols_def
        update_as_map[where f = "map (\<lambda>x. to_integer (cell_fillna (Fin (- 1)) x))"])
qed

lemma coerced_rows_spec:
  assumes co: "coercible t"
  shows "coerced_rows t = Inr (coerce_spec t)"
proof -
  from co have d: "distinct (map fst (df_cols t))" by (simp add: coercible_def)
  from co obtain x1 x2 x3 x4 x5 where
    c1: "map_of (df_cols t) ''start_blink'' = Some x1" "list_all fits_int64 x1" and
    c2: "map_of (df_cols t) ''end_blink'' = Some x2" "list_all fits_int64 x2" and
    c3: "map_of (df_cols t) ''outer_start'' = Some x3" "list_all fits_int64 x3" and
    c4: "map_of (df_cols t) ''outer_end'' = Some x4" "list_all fits_int64 x4" and
    c5: "map_of (df_cols t) ''left_zero'' = Some x5" "list_all fits_int64 x5"
    by (auto simp: coercible_def index_columns_def split: option.splits)
  from co have c6: "case map_of (df_cols t) ''right_zero'' of
           None \<Rightarrow> True
         | Some xs \<Rightarrow> list_all (\<lambda>x. fits_int64 x \<or> x = NaN) xs"
    by (simp add: coercible_def)
  let ?g = "\<lambda>c c' ys. if c' = c then map to_integer ys else ys"
  let ?t1 = "map_cols (?g ''start_blink'') t"
  let ?t2 = "map_cols (?g ''end_blink'') ?t1"
  let ?t3 = "map_cols (?g ''outer_start'') ?t2"
  let ?t4 = "map_cols (?g ''outer_end'') ?t3"
  let ?t5 = "map_cols (?g ''left_zero'') ?t4"
  let ?t6 = "map_cols (\<lambda>c' ys. if c' = ''right_zero''
            then map (\<lambda>x. to_integer (cell_fillna (Fin (- 1)) x)) ys else ys) ?t5"
  have s1: "astype_col ''start_blink'' t = Inr ?t1"
    by (rule astype_col_map[OF d c1])
  have s2: "astype_col ''end_blink'' ?t1 = Inr ?t2"
    by (rule astype_col_map[where xs = x2]) (simp_all add: map_cols_keys map_cols_lookup d c2)
  have s3: "astype_col ''outer_start'' ?t2 = Inr ?t3"
    by (rule astype_col_map[where xs = x3]) (simp_all add: map_cols_keys map_cols_lookup d c3)
  have s4: "astype_col ''outer_end'' ?t3 = Inr ?t4"
    by (rule astype_col_map[where xs = x4]) (simp_all add: map_cols_keys map_cols_lookup d c4)
  have s5: "astype_col ''left_zero'' ?t4 = Inr ?t5"
    by (rule astype_col_map[where xs = x5]) (simp_all add: map_cols_keys map_cols_lookup d c5)
  have l6: "map_of (df_cols ?t5) ''right_zero'' = map_of (df_cols t) ''right_zero''"
    by (cases "map_of (df_cols t) ''right_zero''") (simp_all add: map_cols_lookup)
  have d5: "distinct (map fst (df_cols ?t5))"
    by (simp add: map_cols_keys d)
  have s6: "fill_right_zero_value ?t5 = Inr ?t6"
    by (rule fill_right_zero_map[OF d5]) (unfold l6, rule c6)
  have run: "coerced_rows t = Inr ?t6"
    by (simp add: coerced_rows_def bindS_def s1 s2 s3 s4 s5 s6)
  have pointwise: "(if c = ''right_zero''
        then map (\<lambda>x. to_integer (cell_fillna (Fin (- 1)) x))
               (?g ''left_zero'' c (?g ''outer_end'' c (?g ''outer_start'' c
                  (?g ''end_blink'' c (?g ''start_blink'' c xs)))))
        else ?g ''left_zero'' c (?g ''outer_end'' c (?g ''outer_start'' c
               (?g ''end_blink'' c (?g ''start_blink'' c xs))))) = coerced_column c xs" for c xs
    by (auto simp: coerced_column_def index_columns_def)
  have "?t6 = coerce_spec t"
    unfolding coerce_spec_def map_cols_comp pointwise ..
  with run show ?thesis by simp
qed

lemma pick_Nil [simp]: "pick [] xs = []" "pick m [] = []"
  by (simp_all add: pick_def)

lemma pick_Cons [simp]: "pick (b # m) (x # xs) = (if b then x # pick m xs else pick m xs)"
  by (simp add: pick_def)

lemma pick_pick:
  "\<forall>c\<in>set ids. Q c \<longrightarrow> P c \<Longrightarrow>
   pick (pick (map P ids) (map Q ids)) (pick (map P ids) xs) = pick (map Q ids) xs"
proof (induction ids arbitrary: xs)
  case Nil
  show ?case by simp
next
  case (Cons c ids)
  then show ?case by (cases xs) auto
qed

lemma map_pick: "map Q (pick (map P ids) ids) = pick (map P ids) (map Q ids)"
  by (induction ids) auto

lemma pick_none: "\<forall>b\<in>set m. \<not> b \<Longrightarrow> pick m xs = []"
proof (induction m arbitrary: xs)
  case Nil
  show ?case by simp
next
  case (Cons b m)
  then show ?case by (cases xs) auto
qed

lemma pick_empty_iff:
  "length m = length xs \<Longrightarrow> pick m xs = [] \<Longrightarrow> \<forall>b\<in>set m. \<not> b"
proof (induction m arbitrary: xs)
  case Nil
  show ?case by simp
next
  case (Cons b m)
  then show ?case by (cases xs) (auto split: if_splits)
qed

lemma df_mask_lookup:
  "map_of (df_cols (df_mask df m)) c = map_option (pick m) (map_of (df_cols df) c)"
  by (simp add: df_mask_def map_of_keyed)

lemma df_mask_keys: "map fst (df_cols (df_mask df m)) = map fst (df_cols df)"
  by (simp add: df_mask_def comp_def case_prod_unfold)

lemma df_mask_twice:
  assumes "\<forall>c\<in>set ids. Q c \<longrightarrow> P c"
  shows "df_mask (df_mask df (map P ids)) (pick (map P ids) (map Q ids)) = df_mask df (map Q ids)"
  by (simp add: df_mask_def pick_pick[OF assms] comp_def case_prod_unfold)

lemma df_mask_none_zero_rows: "\<forall>b\<in>set m. \<not> b \<Longrightarrow> zero_rows (df_mask df m)"
  by (simp add: zero_rows_def df_mask_def pick_none list_all_iff case_prod_unfold)

lemma pick_self: "pick (map P ids) ids = filter P ids"
  by (induction ids) auto

lemma zero_rows_lookup:
  assumes "zero_rows t" and "c \<in> set (map fst (df_cols t))"
  shows "map_of (df_cols t) c = Some []"
proof -
  from assms(2) obtain xs where xs: "map_of (df_cols t) c = Some xs"
    by (metis domD dom_map_of_conv_image_fst set_map)
  then have "(c, xs) \<in> set (df_cols t)" by (rule map_of_SomeD)
  with assms(1) have "xs = []" by (auto simp: zero_rows_def list_all_iff)
  with xs show ?thesis by simp
qed

lemma astype_col_zero:
  assumes "zero_rows t" and "c \<in> set (map fst (df_cols t))"
  shows "astype_col c t = Inr t"
  using zero_rows_lookup[OF assms]
  by (simp add: astype_col_def df_getitem_def bindS_def df_setitem_def update_triv)

lemma fill_right_zero_zero:
  assumes "zero_rows t"
  shows "fill_right_zero_value t = Inr t"
proof (cases "''right_zero'' \<in> set (map fst (df_cols t))")
  case True
  from zero_rows_lookup[OF assms True] True show ?thesis
    by (simp add: fill_right_zero_value_def df_getitem_def bindS_def df_setitem_def update_triv
        series_fillna_def)
next
  case False
  then show ?thesis by (simp add: fill_right_zero_value_def)
qed

lemma coerced_rows_zero:
  assumes z: "zero_rows t"
    and cols: "list_all (\<lambda>c. c \<in> set (map fst (df_cols t))) index_columns"
  shows "coerced_rows t = Inr t"
proof -
  from cols have "astype_col ''start_blink'' t = Inr t" "astype_col ''end_blink'' t = Inr t"
    "astype_col ''outer_start'' t = Inr t" "astype_col ''outer_end'' t = Inr t"
    "astype_col ''left_zero'' t = Inr t"
    by (simp_all add: index_columns_def astype_col_zero[OF z])
  then show ?thesis
    by (simp add: coerced_rows_def bindS_def fill_right_zero_zero[OF z])
qed

lemma selected_rows_none:
  assumes ids: "map_of (df_cols df) ''seg_id'' = Some ids"
    and none: "\<forall>c\<in>set ids. \<not> cell_eq_int c (int k)"
    and cols: "list_all (\<lambda>c. c \<in> set (map fst (df_cols df))) index_columns"
  shows "\<exists>t. selected_rows df k = Inr t \<and> df_empty t"
proof -
  let ?t = "df_mask df (series_eq ids (int k))"
  from none have z: "zero_rows ?t"
    by (intro df_mask_none_zero_rows) (simp add: series_eq_def)
  from cols have "list_all (\<lambda>c. c \<in> set (map fst (df_cols ?t))) index_columns"
    by (simp add: df_mask_keys)
  from coerced_rows_zero[OF z this] ids have "selected_rows df k = Inr ?t"
    by (simp add: selected_rows_def df_getitem_def bindS_def)
  moreover from z have "df_empty ?t" by (simp add: zero_rows_def df_empty_def)
  ultimately show ?thesis by blast
qed

lemma mask_by_seg_id_lookup:
  assumes ids: "map_of (df_cols df) ''seg_id'' = Some ids"
  shows "map_of (df_cols (mask_by_seg_id P df)) ''seg_id'' = Some (filter P ids)"
  using ids by (simp add: mask_by_seg_id_def df_mask_lookup pick_self)

lemma mask_by_seg_id_keys: "map fst (df_cols (mask_by_seg_id P df)) = map fst (df_cols df)"
  by (simp add: mask_by_seg_id_def df_mask_keys split: option.splits)

lemma selected_rows_kept:
  assumes ids: "map_of (df_cols df) ''seg_id'' = Some ids"
    and kept: "\<forall>c\<in>set ids. cell_eq_int c (int k) \<longrightarrow> P c"
  shows "selected_rows (mask_by_seg_id P df) k = selected_rows df k"
proof -
  have "df_mask (mask_by_seg_id P df) (series_eq (filter P ids) (int k)) =
        df_mask df (series_eq ids (int k))"
    using ids df_mask_twice[OF kept, of df]
    by (simp add: mask_by_seg_id_def series_eq_def map_pick pick_self[symmetric])
  with ids mask_by_seg_id_lookup[OF ids, of P] show ?thesis
    by (simp add: selected_rows_def df_getitem_def bindS_def)
qed

lemma selected_rows_dropped:
  assumes ids: "map_of (df_cols df) ''seg_id'' = Some ids"
    and dropped: "\<forall>c\<in>set ids. cell_eq_int c (int k) \<longrightarrow> \<not> P c"
    and cols: "list_all (\<lambda>c. c \<in> set (map fst (df_cols df))) index_columns"
  shows "\<exists>t. selected_rows (mask_by_seg_id P df) k = Inr t \<and> df_empty t"
proof (rule selected_rows_none)
  show "map_of (df_cols (mask_by_seg_id P df)) ''seg_id'' = Some (filter P ids)"
    by (rule mask_by_seg_id_lookup[OF ids])
  show "\<forall>c\<in>set (filter P ids). \<not> cell_eq_int c (int k)"
    using dropped by auto
  show "list_all (\<lambda>c. c \<in> set (map fst (df_cols (mask_by_seg_id P df)))) index_columns"
    using cols by (simp add: mask_by_seg_id_keys)
qed

lemma segment_outcome_empty:
  "selected_rows df k = Inr t \<Longrightarrow> df_empty t \<Longrightarrow>
   segment_outcome H df sfreq params channel run_fit k raw = Inr None"
  by (simp add: segment_outcome_def bindS_def dispatch_outcome_def)

lemma segment_outcome_masked:
  assumes ids: "map_of (df_cols df) ''seg_id'' = Some ids"
    and cols: "list_all (\<lambda>c. c \<in> set (map fst (df_cols df))) index_columns"
    and cond: "(\<forall>c\<in>set ids. cell_eq_int c (int k) \<longrightarrow> P c) \<or>
               ((\<forall>c\<in>set ids. cell_eq_int c (int k) \<longrightarrow> \<not> P c) \<and>
                segment_outcome H df sfreq params channel run_fit k raw = Inr None)"
  shows "segment_outcome H (mask_by_seg_id P df) sfreq params channel run_fit k raw =
         segment_outcome H df sfreq params channel run_fit k raw"
  using cond
proof
  assume "\<forall>c\<in>set ids. cell_eq_int c (int k) \<longrightarrow> P c"
  from selected_rows_kept[OF ids this] show ?thesis
    by (simp add: segment_outcome_def)
next
  assume d: "(\<forall>c\<in>set ids. cell_eq_int c (int k) \<longrightarrow> \<not> P c) \<and>
             segment_outcome H df sfreq params channel run_fit k raw = Inr None"
  from selected_rows_dropped[OF ids conjunct1[OF d] cols]
  obtain t where "selected_rows (mask_by_seg_id P df) k = Inr t" "df_empty t" by blast
  from segment_outcome_empty[OF this] d show ?thesis by simp
qed

lemma loop_outcome_masked:
  assumes ids: "map_of (df_cols df) ''seg_id'' = Some ids"
    and cols: "list_all (\<lambda>c. c \<in> set (map fst (df_cols df))) index_columns"
    and each: "\<forall>(k, raw)\<in>set es.
        (\<forall>c\<in>set ids. cell_eq_int c (int k) \<longrightarrow> P c) \<or>
        ((\<forall>c\<in>set ids. cell_eq_int c (int k) \<longrightarrow> \<not> P c) \<and>
         segment_outcome H df sfreq params channel run_fit k raw = Inr None)"
  shows "loop_outcome H (mask_by_seg_id P df) sfreq params channel run_fit es acc =
         loop_outcome H df sfreq params channel run_fit es acc"
  using each
proof (induction es arbitrary: acc)
  case Nil
  show ?case by simp
next
  case (Cons x es)
  obtain k raw where x: "x = (k, raw)" by (cases x)
  from Cons.prems x have
    "(\<forall>c\<in>set ids. cell_eq_int c (int k) \<longrightarrow> P c) \<or>
     ((\<forall>c\<in>set ids. cell_eq_int c (int k) \<longrightarrow> \<not> P c) \<and>
      segment_outcome H df sfreq params channel run_fit k raw = Inr None)"
    by simp
  from segment_outcome_masked[OF ids cols this]
  have step: "segment_outcome H (mask_by_seg_id P df) sfreq params channel run_fit k raw =
        segment_outcome H df sfreq params channel run_fit k raw" .
  from Cons.prems have rest: "\<forall>(k, raw)\<in>set es.
        (\<forall>c\<in>set ids. cell_eq_int c (int k) \<longrightarrow> P c) \<or>
        ((\<forall>c\<in>set ids. cell_eq_int c (int k) \<longrightarrow> \<not> P c) \<and>
         segment_outcome H df sfreq params channel run_fit k raw = Inr None)"
    by simp
  show ?case
    unfolding x by (simp add: step Cons.IH[OF rest] split: sum.splits option.splits)
qed

lemma loop_outcome_all_skipped:
  "\<forall>(k, raw)\<in>set es. segment_outcome H df sfreq params channel run_fit k raw = Inr None \<Longrightarrow>
   loop_outcome H df sfreq params channel run_fit es acc = Inr acc"
  by (induction es arbitrary: acc) auto

lemma compute_outcome_masked:
  assumes wf: "well_formed_candidates df"
    and ids: "map_of (df_cols df) ''seg_id'' = Some ids"
    and each: "\<forall>(k, raw)\<in>set (enumerate 0 segments).
        (\<forall>c\<in>set ids. cell_eq_int c (int k) \<longrightarrow> P c) \<or>
        ((\<forall>c\<in>set ids. cell_eq_int c (int k) \<longrightarrow> \<not> P c) \<and>
         segment_outcome H df (first_sfreq segments) params channel run_fit k raw = Inr None)"
  shows "compute_outcome H segments (mask_by_seg_id P df) params channel run_fit =
         compute_outcome H segments df params channel run_fit"
proof -
  let ?df' = "mask_by_seg_id P df"
  from wf ids have len: "length ids = length (df_index df)"
    and cols: "list_all (\<lambda>c. c \<in> set (map fst (df_cols df))) index_columns"
    by (simp_all add: well_formed_candidates_def)
  from ids have ne: "df_cols df \<noteq> []" by auto
  have ne': "df_cols ?df' \<noteq> []"
    using ne mask_by_seg_id_keys[of P df] by (metis map_is_Nil_conv)
  have idx': "df_index ?df' = pick (map P ids) (df_index df)"
    using ids by (simp add: mask_by_seg_id_def df_mask_def)
  show ?thesis
  proof (cases "df_empty df")
    case True
    with ne have "df_index df = []" by (simp add: df_empty_def)
    with idx' have "df_empty ?df'" by (simp add: df_empty_def)
    with True show ?thesis by (simp add: compute_outcome_def)
  next
    case False
    show ?thesis
    proof (cases "df_empty ?df'")
      case True
      with ne' idx' have "pick (map P ids) (df_index df) = []" by (simp add: df_empty_def)
      from pick_empty_iff[OF _ this] len have noP: "\<forall>c\<in>set ids. \<not> P c" by simp
      have "\<forall>(k, raw)\<in>set (enumerate 0 segments).
          segment_outcome H df (first_sfreq segments) params channel run_fit k raw = Inr None"
      proof (intro ballI, clarify)
        fix k raw
        assume "(k, raw) \<in> set (enumerate 0 segments)"
        with each have c: "(\<forall>c\<in>set ids. cell_eq_int c (int k) \<longrightarrow> P c) \<or>
          ((\<forall>c\<in>set ids. cell_eq_int c (int k) \<longrightarrow> \<not> P c) \<and>
           segment_outcome H df (first_sfreq segments) params channel run_fit k raw = Inr None)"
          by blast
        show "segment_outcome H df (first_sfreq segments) params channel run_fit k raw = Inr None"
          using c
        proof
          assume "\<forall>c\<in>set ids. cell_eq_int c (int k) \<longrightarrow> P c"
          with noP have "\<forall>c\<in>set ids. \<not> cell_eq_int c (int k)" by blast
          from selected_rows_none[OF ids this cols] obtain t where
            "selected_rows df k = Inr t" "df_empty t" by blast
          then show ?thesis by (rule segment_outcome_empty)
        next
          assume "(\<forall>c\<in>set ids. cell_eq_int c (int k) \<longrightarrow> \<not> P c) \<and>
           segment_outcome H df (first_sfreq segments) params channel run_fit k raw = Inr None"
          then show ?thesis by simp
        qed
      qed
      from loop_outcome_all_skipped[OF this, of "[]"] True False show ?thesis
        by (simp add: compute_outcome_def bindS_def concat_or_empty_def)
    next
      case False
      with \<open>\<not> df_empty df\<close> loop_outcome_masked[OF ids cols each, of "[]"] show ?thesis
        by (simp add: compute_outcome_def)
    qed
  qed
qed

lemma compute_fst:
  "a < length (heap s) \<Longrightarrow>
   fst (compute_segment_blink_properties H segments a params channel run_fit s) =
   compute_outcome H segments (heap s ! a) params channel run_fit"
  using compute_run[of a s H segments params channel run_fit] by auto

lemma cell_eq_int_matches:
  "k < n \<Longrightarrow> cell_eq_int c (int k) \<Longrightarrow> matches_segment n c"
  by (auto simp: matches_segment_def list_ex_iff)

lemma cell_eq_int_in_range:
  "k < n \<Longrightarrow> cell_eq_int c (int k) \<Longrightarrow> \<not> out_of_range n c"
  by (cases c) auto

lemma astype_col_index: "astype_col c t = Inr t' \<Longrightarrow> df_index t' = df_index t"
  by (auto simp: astype_col_def bindS_def df_setitem_def split: sum.splits)

lemma fill_right_zero_index: "fill_right_zero_value t = Inr t' \<Longrightarrow> df_index t' = df_index t"
  by (auto simp: fill_right_zero_value_def bindS_def df_setitem_def split: sum.splits if_splits)

lemma coerced_rows_index:
  assumes "coerced_rows t = Inr t'"
  shows "df_index t' = df_index t"
proof -
  from assms obtain t1 t2 t3 t4 t5 where
    "astype_col ''start_blink'' t = Inr t1" "astype_col ''end_blink'' t1 = Inr t2"
    "astype_col ''outer_start'' t2 = Inr t3" "astype_col ''outer_end'' t3 = Inr t4"
    "astype_col ''left_zero'' t4 = Inr t5" "fill_right_zero_value t5 = Inr t'"
    by (auto simp: coerced_rows_def bindS_def split: sum.splits)
  then show ?thesis
    by (simp add: astype_col_index fill_right_zero_index)
qed







lemmas run_defs =
  compute_segment_blink_properties_def process_segment_def dispatch_segment_def
  coerce_index_columns_def astype_int_column_def fill_right_zero_def
  bindE_def ret_def lift_def emit_def load_def store_def alloc_def
  df_empty_def df_getitem_def df_setitem_def df_setitem_scalar_def df_mask_def pick_def
  series_eq_def series_fillna_def trunc_def int64_range_def cast_int64_def get_data_def
  pd_concat_def first_seen_def column_or_nan_def empty_df_def enumerate_eq_zip Let_def

lemmas ex_defs =
  ex_collab_def ex_collab_strict_def ex_duration_zero_def ex_blinks_def ex_no_blinks_def
  ex_segments_def ex_segments_nan_def ex_state_def ex_state_empty_def np_sub_def


lemma filter_other_append:
  "from_segment k p \<Longrightarrow>
   filter (\<lambda>p. \<not> from_segment k p) (acc @ [p]) = filter (\<lambda>p. \<not> from_segment k p) acc"
  by simp






lemma astype_int_beyond_int64:
  "cell_astype_int (Fin (10 ^ 19)) = Inr (Fin (- 9223372036854775808))"
  by (simp add: cast_int64_def int64_range_def trunc_def)

lemma later_rates_irrelevant:
  assumes "segments \<noteq> []" and "length segments' = length segments"
    and "\<forall>i<length segments. channels (segments' ! i) = channels (segments ! i)"
    and "info_sfreq (segments' ! 0) = info_sfreq (segments ! 0)"
  shows "compute_segment_blink_properties H segments' blink_df params channel run_fit s =
         compute_segment_blink_properties H segments blink_df params channel run_fit s"
proof -
  from assms(1,2) have ne: "segments' \<noteq> []" by auto
  have loop: "segments_loop H blink_df sfreq params channel run_fit (enumerate 0 segments') [] =
      segments_loop H blink_df sfreq params channel run_fit (enumerate 0 segments) []" for sfreq
    by (rule segments_loop_channels[OF enumerate_channels[OF assms(2,3)]])
  show ?thesis
    unfolding compute_segment_blink_properties_def loop
    by (simp only: assms(2,4) ne assms(1) if_True not_False_eq_True)
qed

lemma fixed_rate_same_run:
  assumes "segments \<noteq> []"
  shows "compute_segment_blink_properties (with_rate H (info_sfreq (segments ! 0))) segments
           blink_df params channel run_fit s =
         compute_segment_blink_properties H segments blink_df params channel run_fit s"
  unfolding compute_segment_blink_properties_def segments_loop_with_rate
  by (simp only: assms if_True not_False_eq_True Let_def)

lemma process_segment_fst:
  "a < length (heap s) \<Longrightarrow>
   fst (process_segment H a sfreq params channel run_fit k raw s) =
   segment_outcome H (heap s ! a) sfreq params channel run_fit k raw"
  using process_segment_run[of a s H sfreq params channel run_fit k raw] by auto

lemma loop_outcome_collects:
  "loop_outcome H df sfreq params channel run_fit es acc = Inr ps \<Longrightarrow>
   ps = acc @ concat (map (\<lambda>(k, raw).
          case segment_outcome H df sfreq params channel run_fit k raw of
            Inr (Some p) \<Rightarrow> [p]
          | _ \<Rightarrow> []) es)"
proof (induction es arbitrary: acc)
  case Nil
  then show ?case by simp
next
  case (Cons x es)
  obtain k raw where x: "x = (k, raw)" by (cases x)
  show ?case
  proof (cases "segment_outcome H df sfreq params channel run_fit k raw")
    case (Inl e)
    with Cons.prems x show ?thesis by simp
  next
    case (Inr out)
    show ?thesis
    proof (cases out)
      case None
      with Cons.prems x Inr have "loop_outcome H df sfreq params channel run_fit es acc = Inr ps"
        by simp
      from Cons.IH[OF this] x Inr None show ?thesis by simp
    next
      case (Some p)
      with Cons.prems x Inr have
        "loop_outcome H df sfreq params channel run_fit es (acc @ [p]) = Inr ps"
        by simp
      from Cons.IH[OF this] x Inr Some show ?thesis by simp
    qed
  qed
qed

lemma segment_outcome_empty_df:
  assumes "df_empty df"
  shows "segment_outcome H df sfreq params channel run_fit k raw \<noteq> Inr (Some p)"
proof (cases "selected_rows df k")
  case (Inl e)
  then show ?thesis by (simp add: segment_outcome_def bindS_def)
next
  case (Inr rows)
  then obtain ids where ids: "df_getitem df ''seg_id'' = Inr ids"
    and co: "coerced_rows (df_mask df (series_eq ids (int k))) = Inr rows"
    by (auto simp: selected_rows_def bindS_def split: sum.splits)
  from ids have "df_cols df \<noteq> []" by (auto simp: df_getitem_def)
  with assms have "df_index df = []" by (simp add: df_empty_def)
  with coerced_rows_index[OF co] have "df_empty rows"
    by (simp add: df_mask_def df_empty_def)
  from segment_outcome_empty[OF Inr this, of H sfreq params channel run_fit raw]
  show ?thesis by simp
qed

lemma collected_tables_outcome:
  assumes "a < length (heap s)"
  shows "collected_tables H a sfreq params channel run_fit segments s =
     concat (map (\<lambda>(k, raw).
          case segment_outcome H (heap s ! a) sfreq params channel run_fit k raw of
            Inr (Some p) \<Rightarrow> [p]
          | _ \<Rightarrow> []) (enumerate 0 segments))"
  by (simp add: collected_tables_def process_segment_fst[OF assms])

lemma compute_collects:
  assumes a: "a < length (heap s)"
    and r: "fst (compute_segment_blink_properties H segments a params channel run_fit s) = Inr t"
  shows "t = concat_or_empty
           (collected_tables H a (first_sfreq segments) params channel run_fit segments s)"
proof (cases "df_empty (heap s ! a)")
  case True
  with r have "t = empty_df" by (simp add: compute_fst[OF a] compute_outcome_def)
  moreover have "collected_tables H a (first_sfreq segments) params channel run_fit segments s = []"
    unfolding collected_tables_outcome[OF a]
    using segment_outcome_empty_df[OF True, of H "first_sfreq segments" params channel run_fit]
    by (auto split: sum.splits option.splits)
  ultimately show ?thesis by (simp add: concat_or_empty_def)
next
  case False
  with r obtain ps where
    l: "loop_outcome H (heap s ! a) (first_sfreq segments) params channel run_fit
          (enumerate 0 segments) [] = Inr ps"
    and t: "t = concat_or_empty ps"
    by (auto simp: compute_fst[OF a] compute_outcome_def bindS_def split: sum.splits)
  from loop_outcome_collects[OF l] t show ?thesis
    by (simp add: collected_tables_outcome[OF a])
qed

lemma body_yields_property_table:
  assumes a: "a < length (heap s)"
    and ids: "df_getitem (heap s ! a) ''seg_id'' = Inr ids"
    and co: "coercible (df_mask (heap s ! a) (series_eq ids (int k)))"
    and ne: "\<not> df_empty (coerce_spec (df_mask (heap s ! a) (series_eq ids (int k))))"
    and sig: "get_data raw channel = Inr signal"
    and fb: "FitBlinks H signal (coerce_spec (df_mask (heap s ! a) (series_eq ids (int k)))) params
               = Inr fitter"
    and fit: "dprocess_segment_raw H fitter run_fit = Inr fitter'"
    and bp: "BlinkProperties_df H signal (frame_blinks H fitter') sfreq params run_fit = Inr props"
  shows "fst (process_segment H a sfreq params channel run_fit k raw s) =
         Inr (Some (df_setitem_scalar props ''seg_id'' (Fin (of_nat k))))"
  using ids coerced_rows_spec[OF co] ne sig fb fit bp
  by (simp add: process_segment_fst[OF a] segment_outcome_def selected_rows_def
      dispatch_outcome_def bindS_def)

lemma collected_member:
  assumes "k < length segments"
    and "fst (process_segment H a sfreq params channel run_fit k (segments ! k) s) = Inr (Some p)"
  shows "p \<in> set (collected_tables H a sfreq params channel run_fit segments s)"
proof -
  from assms(1) have "(k, segments ! k) \<in> set (enumerate 0 segments)"
    by (simp add: in_set_enumerate_eq)
  with assms(2) show ?thesis
    by (force simp: collected_tables_def)
qed

section \<open>The claims\<close>

subsection \<open>The empty candidate table\<close>

text \<open>
  Claim C3. When the candidate table is empty, the function returns the empty table at
  once: whatever the segments, the parameters and the collaborators are, the result is
  \<open>pd.DataFrame()\<close>, the store is as before (no rows were copied), and the log holds
  the opening message, the warning for \<open>run_fit\<close> if it is set, and the message that
  there is nothing to compute. No collaborator and no segment has any influence on the
  outcome.
\<close>

theorem empty_candidate_table:
  assumes "df_empty (heap s ! blink_df)"
  shows "compute_segment_blink_properties H segments blink_df params channel run_fit s =
           (Inr empty_df,
            s\<lparr>logged := logged s @ Info_computing (length segments) #
                         (if run_fit then [Warn_run_fit] else []) @ [Info_empty]\<rparr>)"
  using assms
  by (simp add: compute_segment_blink_properties_def bindE_def emit_def ret_def load_def)

theorem empty_candidate_table_witness:
  "df_empty (heap ex_state_empty ! 0) \<and>
   compute_segment_blink_properties ex_collab ex_segments 0 () ''EEG-E8'' True ex_state_empty =
     (Inr empty_df, \<lparr>heap = [ex_no_blinks], logged = [Info_computing 2, Warn_run_fit, Info_empty]\<rparr>)"
proof -
  have h: "df_empty (heap ex_state_empty ! 0)"
    by (simp add: ex_state_empty_def ex_no_blinks_def df_empty_def)
  from empty_candidate_table[OF h, of ex_collab ex_segments "()" "''EEG-E8''" True] h
  show ?thesis by (simp add: ex_state_empty_def ex_segments_def)
qed

subsection \<open>The caller's table\<close>

text \<open>
  Claim C4. The function never writes to the caller's candidate table: after every call,
  whether it returns or raises, the object at the address \<open>blink_df\<close> holds what it
  held before, and so does every other object that existed before the call. The
  coercions write to the copies only, which are new objects.
\<close>

theorem input_table_unchanged:
  assumes "blink_df < length (heap s)"
  shows "heap (snd (compute_segment_blink_properties H segments blink_df params channel run_fit s))
           ! blink_df = heap s ! blink_df \<and>
         take (length (heap s))
           (heap (snd (compute_segment_blink_properties H segments blink_df params channel run_fit s)))
           = heap s"
proof -
  from compute_run[OF assms, of H segments params channel run_fit]
  obtain hs where "heap (snd (compute_segment_blink_properties H segments blink_df params channel
      run_fit s)) = heap s @ hs"
    by auto
  with assms show ?thesis by (simp add: nth_append)
qed

theorem input_table_unchanged_witness:
  "0 < length (heap ex_state) \<and>
   heap (snd (compute_segment_blink_properties ex_collab ex_segments 0 () ''EEG-E8'' False ex_state))
     ! 0 = ex_blinks"
proof -
  have h: "0 < length (heap ex_state)" by (simp add: ex_state_def)
  from input_table_unchanged[OF h, of ex_collab ex_segments "()" "''EEG-E8''" False] h
  show ?thesis by (simp add: ex_state_def)
qed

subsection \<open>Determinism\<close>

text \<open>
  Claim C7. Two calls with the same segments, the same contents of the candidate table,
  the same parameters, channel and \<open>run_fit\<close> return the same table or raise the same
  exception, in whatever states they start: the address of the table, the other objects
  in the store and the log written so far have no influence. Equality of tables is
  equality of all cells, NaN being equal to NaN. The collaborators are functions of
  their arguments.
\<close>

theorem same_inputs_same_table:
  assumes "a1 < length (heap s1)" and "a2 < length (heap s2)"
    and "heap s1 ! a1 = heap s2 ! a2"
  shows "fst (compute_segment_blink_properties H segments a1 params channel run_fit s1) =
         fst (compute_segment_blink_properties H segments a2 params channel run_fit s2)"
proof -
  from compute_run[OF assms(1), of H segments params channel run_fit]
  have 1: "fst (compute_segment_blink_properties H segments a1 params channel run_fit s1) =
      compute_outcome H segments (heap s1 ! a1) params channel run_fit" by auto
  from compute_run[OF assms(2), of H segments params channel run_fit]
  have 2: "fst (compute_segment_blink_properties H segments a2 params channel run_fit s2) =
      compute_outcome H segments (heap s2 ! a2) params channel run_fit" by auto
  show ?thesis unfolding 1 2 assms(3) ..
qed

theorem same_inputs_same_table_witness:
  "0 < length (heap ex_state) \<and> 1 < length (heap ex_state_later) \<and>
   heap ex_state ! 0 = heap ex_state_later ! 1 \<and>
   fst (compute_segment_blink_properties ex_collab ex_segments 0 () ''EEG-E8'' False ex_state) =
   fst (compute_segment_blink_properties ex_collab ex_segments 1 () ''EEG-E8'' False ex_state_later)"
proof -
  have h1: "0 < length (heap ex_state)" by (simp add: ex_state_def)
  have h2: "1 < length (heap ex_state_later)" by (simp add: ex_state_later_def)
  have h3: "heap ex_state ! 0 = heap ex_state_later ! 1"
    by (simp add: ex_state_def ex_state_later_def)
  from same_inputs_same_table[OF h1 h2 h3, of ex_collab ex_segments "()" "''EEG-E8''" False]
    h1 h2 h3
  show ?thesis by blast
qed

subsection \<open>The sampling rate\<close>

text \<open>
  Claim C9. For a non-empty sequence of segments, the sampling rate handed to the property
  calculator is \<open>segments[0].info["sfreq"]\<close> for every segment. First, a run on
  segments that differ from the given ones only in the sampling rates of later segments
  is the same run. Second, a property calculator that ignores the rate it is given and
  uses the rate of the first segment gives the same run. Third, when the segment at
  position \<open>k\<close> has rows, a signal and a fit, and the property calculator returns
  \<open>props\<close> for them at the rate of the first segment, then the loop body for
  \<open>k\<close> yields \<open>props\<close> tagged with \<open>seg_id = k\<close>, this table is among
  the tables that the bodies yield at the rate of the first segment, and a call that
  returns, returns the concatenation of those tables.
\<close>

theorem sampling_rate_of_first_segment:
  assumes "segments \<noteq> []" and "length segments' = length segments"
    and "\<forall>i<length segments. channels (segments' ! i) = channels (segments ! i)"
    and "info_sfreq (segments' ! 0) = info_sfreq (segments ! 0)"
  shows "compute_segment_blink_properties H segments' blink_df params channel run_fit s =
         compute_segment_blink_properties H segments blink_df params channel run_fit s \<and>
         compute_segment_blink_properties (with_rate H (info_sfreq (segments ! 0))) segments
           blink_df params channel run_fit s =
         compute_segment_blink_properties H segments blink_df params channel run_fit s \<and>
         (blink_df < length (heap s) \<and> k < length segments \<and>
          df_getitem (heap s ! blink_df) ''seg_id'' = Inr ids \<and>
          coercible (df_mask (heap s ! blink_df) (series_eq ids (int k))) \<and>
          \<not> df_empty (coerce_spec (df_mask (heap s ! blink_df) (series_eq ids (int k)))) \<and>
          get_data (segments ! k) channel = Inr signal \<and>
          FitBlinks H signal (coerce_spec (df_mask (heap s ! blink_df) (series_eq ids (int k))))
            params = Inr fitter \<and>
          dprocess_segment_raw H fitter run_fit = Inr fitter' \<and>
          BlinkProperties_df H signal (frame_blinks H fitter') (info_sfreq (segments ! 0))
            params run_fit = Inr props \<and>
          fst (compute_segment_blink_properties H segments blink_df params channel run_fit s)
            = Inr t
          \<longrightarrow>
          fst (process_segment H blink_df (info_sfreq (segments ! 0)) params channel run_fit k
                 (segments ! k) s) =
            Inr (Some (df_setitem_scalar props ''seg_id'' (Fin (of_nat k)))) \<and>
          df_setitem_scalar props ''seg_id'' (Fin (of_nat k)) \<in>
            set (collected_tables H blink_df (info_sfreq (segments ! 0)) params channel run_fit
                   segments s) \<and>
          t = concat_or_empty
                (collected_tables H blink_df (info_sfreq (segments ! 0)) params channel run_fit
                   segments s))"
proof (intro conjI impI)
  show "compute_segment_blink_properties H segments' blink_df params channel run_fit s =
         compute_segment_blink_properties H segments blink_df params channel run_fit s"
    by (rule later_rates_irrelevant[OF assms])
next
  show "compute_segment_blink_properties (with_rate H (info_sfreq (segments ! 0))) segments
           blink_df params channel run_fit s =
         compute_segment_blink_properties H segments blink_df params channel run_fit s"
    by (rule fixed_rate_same_run[OF assms(1)])
next
  assume h: "blink_df < length (heap s) \<and> k < length segments \<and>
          df_getitem (heap s ! blink_df) ''seg_id'' = Inr ids \<and>
          coercible (df_mask (heap s ! blink_df) (series_eq ids (int k))) \<and>
          \<not> df_empty (coerce_spec (df_mask (heap s ! blink_df) (series_eq ids (int k)))) \<and>
          get_data (segments ! k) channel = Inr signal \<and>
          FitBlinks H signal (coerce_spec (df_mask (heap s ! blink_df) (series_eq ids (int k))))
            params = Inr fitter \<and>
          dprocess_segment_raw H fitter run_fit = Inr fitter' \<and>
          BlinkProperties_df H signal (frame_blinks H fitter') (info_sfreq (segments ! 0))
            params run_fit = Inr props \<and>
          fst (compute_segment_blink_properties H segments blink_df params channel run_fit s)
            = Inr t"
  then have a: "blink_df < length (heap s)" and k: "k < length segments" by simp_all
  from h have body: "fst (process_segment H blink_df (info_sfreq (segments ! 0)) params channel
      run_fit k (segments ! k) s) =
      Inr (Some (df_setitem_scalar props ''seg_id'' (Fin (of_nat k))))"
    by (intro body_yields_property_table[where ids = ids and signal = signal
          and fitter = fitter and fitter' = fitter']) simp_all
  show "fst (process_segment H blink_df (info_sfreq (segments ! 0)) params channel run_fit k
                 (segments ! k) s) =
            Inr (Some (df_setitem_scalar props ''seg_id'' (Fin (of_nat k))))"
    by (rule body)
  show "df_setitem_scalar props ''seg_id'' (Fin (of_nat k)) \<in>
            set (collected_tables H blink_df (info_sfreq (segments ! 0)) params channel run_fit
                   segments s)"
    by (rule collected_member[OF k body])
  from h have r: "fst (compute_segment_blink_properties H segments blink_df params channel
      run_fit s) = Inr t" by simp
  from compute_collects[OF a r] assms(1)
  show "t = concat_or_empty
                (collected_tables H blink_df (info_sfreq (segments ! 0)) params channel run_fit
                   segments s)"
    by (simp add: first_sfreq_def)
qed

theorem sampling_rate_of_first_segment_witness:
  "ex_segments \<noteq> [] \<and> length ex_segments_rate = length ex_segments \<and>
   channels (ex_segments_rate ! 0) = channels (ex_segments ! 0) \<and>
   channels (ex_segments_rate ! 1) = channels (ex_segments ! 1) \<and>
   info_sfreq (ex_segments_rate ! 0) = info_sfreq (ex_segments ! 0) \<and>
   info_sfreq (ex_segments_rate ! 1) \<noteq> info_sfreq (ex_segments ! 1) \<and>
   compute_segment_blink_properties ex_collab ex_segments_rate 0 () ''EEG-E8'' False ex_state =
   compute_segment_blink_properties ex_collab ex_segments 0 () ''EEG-E8'' False ex_state \<and>
   info_sfreq (ex_segments ! 0) = Fin 250 \<and> info_sfreq (ex_segments ! 1) = Fin 100 \<and>
   fst (process_segment ex_collab 0 (info_sfreq (ex_segments ! 0)) () ''EEG-E8'' False 1
          (ex_segments ! 1) ex_state) =
     Inr (Some \<lparr>df_index = [1],
                df_cols =
                  [(''seg_id'', [Fin 1]), (''start_blink'', [Fin 2]),
                   (''end_blink'', [Fin 4]), (''outer_start'', [Fin 0]),
                   (''outer_end'', [Fin 9]), (''left_zero'', [Fin 1]),
                   (''right_zero'', [Fin 7]), (''duration_zero'', [Fin (3 / 125)])]\<rparr>) \<and>
   \<lparr>df_index = [1],
    df_cols =
      [(''seg_id'', [Fin 1]), (''start_blink'', [Fin 2]),
       (''end_blink'', [Fin 4]), (''outer_start'', [Fin 0]),
       (''outer_end'', [Fin 9]), (''left_zero'', [Fin 1]),
       (''right_zero'', [Fin 7]), (''duration_zero'', [Fin (3 / 125)])]\<rparr>
     \<in> set (collected_tables ex_collab 0 (info_sfreq (ex_segments ! 0)) () ''EEG-E8'' False
              ex_segments ex_state) \<and>
   fst (compute_segment_blink_properties ex_collab ex_segments 0 () ''EEG-E8'' False ex_state) =
     Inr \<lparr>df_index = [0, 1],
          df_cols =
            [(''seg_id'', [Fin 0, Fin 1]), (''start_blink'', [Fin 3, Fin 2]),
             (''end_blink'', [Fin 5, Fin 4]), (''outer_start'', [Fin 0, Fin 0]),
             (''outer_end'', [Fin 9, Fin 9]), (''left_zero'', [Fin 1, Fin 1]),
             (''right_zero'', [Fin 6, Fin 7]),
             (''duration_zero'', [Fin (1 / 50), Fin (3 / 125)])]\<rparr> \<and>
   \<lparr>df_index = [0, 1],
    df_cols =
      [(''seg_id'', [Fin 0, Fin 1]), (''start_blink'', [Fin 3, Fin 2]),
       (''end_blink'', [Fin 5, Fin 4]), (''outer_start'', [Fin 0, Fin 0]),
       (''outer_end'', [Fin 9, Fin 9]), (''left_zero'', [Fin 1, Fin 1]),
       (''right_zero'', [Fin 6, Fin 7]),
       (''duration_zero'', [Fin (1 / 50), Fin (3 / 125)])]\<rparr> =
     concat_or_empty
       (collected_tables ex_collab 0 (info_sfreq (ex_segments ! 0)) () ''EEG-E8'' False
          ex_segments ex_state)"
proof -
  let ?m = "df_mask (heap ex_state ! 0) (series_eq [Fin 0, Fin 1, Fin 5] (int 1))"
  let ?rows = "\<lparr>df_index = [1],
      df_cols =
        [(''seg_id'', [Fin 1]), (''start_blink'', [Fin 2]),
         (''end_blink'', [Fin 4]), (''outer_start'', [Fin 0]),
         (''outer_end'', [Fin 9]), (''left_zero'', [Fin 1]),
         (''right_zero'', [Fin 7])]\<rparr>"
  let ?props = "\<lparr>df_index = [1],
      df_cols =
        [(''seg_id'', [Fin 1]), (''start_blink'', [Fin 2]),
         (''end_blink'', [Fin 4]), (''outer_start'', [Fin 0]),
         (''outer_end'', [Fin 9]), (''left_zero'', [Fin 1]),
         (''right_zero'', [Fin 7]), (''duration_zero'', [Fin (3 / 125)])]\<rparr>"
  let ?t = "\<lparr>df_index = [0, 1],
      df_cols =
        [(''seg_id'', [Fin 0, Fin 1]), (''start_blink'', [Fin 3, Fin 2]),
         (''end_blink'', [Fin 5, Fin 4]), (''outer_start'', [Fin 0, Fin 0]),
         (''outer_end'', [Fin 9, Fin 9]), (''left_zero'', [Fin 1, Fin 1]),
         (''right_zero'', [Fin 6, Fin 7]),
         (''duration_zero'', [Fin (1 / 50), Fin (3 / 125)])]\<rparr>"
  have h1: "ex_segments \<noteq> []" by (simp add: ex_segments_def)
  have h2: "length ex_segments_rate = length ex_segments"
    by (simp add: ex_segments_def ex_segments_rate_def)
  have h3: "\<forall>i<length ex_segments. channels (ex_segments_rate ! i) = channels (ex_segments ! i)"
    by (simp add: ex_segments_def ex_segments_rate_def nth_Cons split: nat.splits)
  have h4: "info_sfreq (ex_segments_rate ! 0) = info_sfreq (ex_segments ! 0)"
    by (simp add: ex_segments_def ex_segments_rate_def)
  have h5: "info_sfreq (ex_segments_rate ! 1) \<noteq> info_sfreq (ex_segments ! 1)"
    by (simp add: ex_segments_def ex_segments_rate_def)
  have c0: "channels (ex_segments_rate ! 0) = channels (ex_segments ! 0)"
    and c1: "channels (ex_segments_rate ! 1) = channels (ex_segments ! 1)"
    by (simp_all add: ex_segments_def ex_segments_rate_def)
  have f0: "info_sfreq (ex_segments ! 0) = Fin 250" and f1: "info_sfreq (ex_segments ! 1) = Fin 100"
    by (simp_all add: ex_segments_def)
  have a: "0 < length (heap ex_state)" by (simp add: ex_state_def)
  have k: "1 < length ex_segments" by (simp add: ex_segments_def)
  have ids: "df_getitem (heap ex_state ! 0) ''seg_id'' = Inr [Fin 0, Fin 1, Fin 5]"
    by (simp add: ex_state_def ex_blinks_def df_getitem_def)
  have co: "coercible ?m"
    by (simp add: ex_state_def ex_blinks_def coercible_def df_mask_def series_eq_def pick_def
        index_columns_def int64_range_def trunc_def)
  have rows: "coerce_spec ?m = ?rows"
    by (simp add: ex_state_def ex_blinks_def coerce_spec_def map_cols_def coerced_column_def
        df_mask_def series_eq_def pick_def index_columns_def trunc_def)
  have ne: "\<not> df_empty (coerce_spec ?m)"
    unfolding rows by (simp add: df_empty_def)
  have sig: "get_data (ex_segments ! 1) ''EEG-E8'' = Inr [Fin 3, Fin 2]"
    by (simp add: ex_segments_def get_data_def)
  have fb: "FitBlinks ex_collab [Fin 3, Fin 2] (coerce_spec ?m) () = Inr ([Fin 3, Fin 2], ?rows)"
    unfolding rows by (simp add: ex_collab_def)
  have fit: "dprocess_segment_raw ex_collab ([Fin 3, Fin 2], ?rows) False =
      Inr ([Fin 3, Fin 2], ?rows)"
    by (simp add: ex_collab_def)
  have bp: "BlinkProperties_df ex_collab [Fin 3, Fin 2]
      (frame_blinks ex_collab ([Fin 3, Fin 2], ?rows)) (info_sfreq (ex_segments ! 0)) () False =
      Inr ?props"
    unfolding f0
    by (simp add: ex_collab_def ex_duration_zero_def column_or_nan_def df_setitem_def np_sub_def)
  have r: "fst (compute_segment_blink_properties ex_collab ex_segments 0 () ''EEG-E8'' False
      ex_state) = Inr ?t"
    by (simp add: run_defs ex_defs upt_rec)
  have tag: "df_setitem_scalar ?props ''seg_id'' (Fin (of_nat 1)) = ?props"
    by (simp add: df_setitem_scalar_def df_setitem_def)
  note inst = sampling_rate_of_first_segment[OF h1 h2 h3 h4, where H = ex_collab
      and blink_df = "0" and params = "()" and channel = "''EEG-E8''" and run_fit = False
      and s = ex_state and k = "1" and ids = "[Fin 0, Fin 1, Fin 5]" and signal = "[Fin 3, Fin 2]"
      and fitter = "([Fin 3, Fin 2], ?rows)" and fitter' = "([Fin 3, Fin 2], ?rows)"
      and props = "?props" and t = "?t"]
  from inst have e1: "compute_segment_blink_properties ex_collab ex_segments_rate 0 () ''EEG-E8''
      False ex_state =
      compute_segment_blink_properties ex_collab ex_segments 0 () ''EEG-E8'' False ex_state"
    by (rule conjunct1)
  from inst a k ids co ne sig fb fit bp r
  have pos: "fst (process_segment ex_collab 0 (info_sfreq (ex_segments ! 0)) () ''EEG-E8'' False 1
          (ex_segments ! 1) ex_state) =
        Inr (Some (df_setitem_scalar ?props ''seg_id'' (Fin (of_nat 1)))) \<and>
      df_setitem_scalar ?props ''seg_id'' (Fin (of_nat 1)) \<in>
        set (collected_tables ex_collab 0 (info_sfreq (ex_segments ! 0)) () ''EEG-E8'' False
               ex_segments ex_state) \<and>
      ?t = concat_or_empty
             (collected_tables ex_collab 0 (info_sfreq (ex_segments ! 0)) () ''EEG-E8'' False
                ex_segments ex_state)"
    by blast
  from pos have p1: "fst (process_segment ex_collab 0 (info_sfreq (ex_segments ! 0)) () ''EEG-E8''
      False 1 (ex_segments ! 1) ex_state) = Inr (Some ?props)"
    and p2: "?props \<in> set (collected_tables ex_collab 0 (info_sfreq (ex_segments ! 0)) ()
      ''EEG-E8'' False ex_segments ex_state)"
    and p3: "?t = concat_or_empty
             (collected_tables ex_collab 0 (info_sfreq (ex_segments ! 0)) () ''EEG-E8'' False
                ex_segments ex_state)"
    unfolding tag by blast+
  from h1 h2 c0 c1 h4 h5 e1 f0 f1 p1 p2 r p3 show ?thesis
    by (intro conjI)
qed

subsection \<open>The line-intersection solver\<close>

text \<open>
  Claim C5. For parallel flanks, that is when the slopes of the two fitted lines in raw
  index space compare equal, the solver returns NaN for the intersection point and for
  both x-intercepts and does not raise; \<open>lines_intersection_matlabx\<close> hands these
  four NaN on unchanged and returns, provided the other collaborators return. The solver
  is the one of the spec, since the source of \<open>get_intersection\<close> is missing.
\<close>

theorem parallel_flanks_give_nan:
  assumes yl: "np_take signal xLeft = Inr yLeft"
    and yr: "np_take signal xRight = Inr yRight"
    and fl: "polyfitMatlab F xLeft yLeft 1 = Inr (pLeft, SLeft, muLeft)"
    and vl: "polyvalMatlab F pLeft xLeft SLeft muLeft = Inr (yPred, deltaLeft)"
    and cl: "corrMatlab F yLeft yPred = Inr (leftR2_m, cLeft)"
    and fr: "polyfitMatlab F xRight yRight 1 = Inr (pRight, SRight, muRight)"
    and vr: "polyvalMatlab F pRight xRight SRight muRight = Inr (yPredRight, deltaRight)"
    and cr: "corrMatlab F yRight yPredRight = Inr (rightR2_m, cRight)"
    and r2l: "bindS (py_index leftR2_m 0) (\<lambda>row. py_index row 0) = Inr l00"
    and r2r: "bindS (py_index rightR2_m 0) (\<lambda>row. py_index row 0) = Inr r00"
    and slopes: "get_line_intersection_slope F NaN NaN NaN NaN = Inr (lSlope, rSlope)"
    and solver: "get_intersection F = get_intersection_spec"
    and left: "raw_line pLeft muLeft = Inr (m1, b1)"
    and right: "raw_line pRight muRight = Inr (m2, b2)"
    and parallel: "np_eq m1 m2"
  shows "get_intersection_spec pLeft pRight muLeft muRight = Inr (NaN, NaN, NaN, NaN) \<and>
         lines_intersection_matlabx F signal xRight xLeft =
           Inr \<lparr>leftSlope = lSlope, rightSlope = rSlope,
                averLeftVelocity = m1, averRightVelocity = m2,
                rightR2 = r00, leftR2 = l00,
                xIntersect = NaN, yIntersect = NaN,
                leftXIntercept = NaN, rightXIntercept = NaN,
                xLineCross_l = NaN, yLineCross_l = NaN,
                xLineCross_r = NaN, yLineCross_r = NaN\<rparr>"
proof -
  have nan: "get_intersection_spec pLeft pRight muLeft muRight = Inr (NaN, NaN, NaN, NaN)"
    using left right parallel by (simp add: get_intersection_spec_def bindS_def)
  from raw_line_slope[OF left] obtain p0 s0 where
    l0: "py_index pLeft 0 = Inr p0" "py_index muLeft 1 = Inr s0" "m1 = np_div p0 s0" by blast
  from raw_line_slope[OF right] obtain q0 t0 where
    r0: "py_index pRight 0 = Inr q0" "py_index muRight 1 = Inr t0" "m2 = np_div q0 t0" by blast
  have "lines_intersection_matlabx F signal xRight xLeft =
           Inr \<lparr>leftSlope = lSlope, rightSlope = rSlope,
                averLeftVelocity = m1, averRightVelocity = m2,
                rightR2 = r00, leftR2 = l00,
                xIntersect = NaN, yIntersect = NaN,
                leftXIntercept = NaN, rightXIntercept = NaN,
                xLineCross_l = NaN, yLineCross_l = NaN,
                xLineCross_r = NaN, yLineCross_r = NaN\<rparr>"
    unfolding lines_intersection_matlabx_def yl yr
    using fl vl cl fr vr cr r2l r2r slopes nan l0 r0
    by (simp add: solver bindS_def)
  with nan show ?thesis ..
qed

theorem parallel_flanks_give_nan_witness:
  "np_take ex_signal [0, 1] = Inr [Fin 1, Fin 3] \<and>
   np_take ex_signal [2, 3] = Inr [Fin 5, Fin 7] \<and>
   polyfitMatlab ex_fit [0, 1] [Fin 1, Fin 3] 1 = Inr ([Fin 2, Fin 1], (), [Fin 0, Fin 1]) \<and>
   polyfitMatlab ex_fit [2, 3] [Fin 5, Fin 7] 1 = Inr ([Fin 2, Fin 1], (), [Fin 0, Fin 1]) \<and>
   get_intersection ex_fit = get_intersection_spec \<and>
   raw_line [Fin 2, Fin 1] [Fin 0, Fin 1] = Inr (Fin 2, Fin 1) \<and>
   np_eq (Fin 2) (Fin 2) \<and>
   get_intersection_spec [Fin 2, Fin 1] [Fin 2, Fin 1] [Fin 0, Fin 1] [Fin 0, Fin 1] =
     Inr (NaN, NaN, NaN, NaN) \<and>
   lines_intersection_matlabx ex_fit ex_signal [2, 3] [0, 1] =
     Inr \<lparr>leftSlope = NaN, rightSlope = NaN, averLeftVelocity = Fin 2,
          averRightVelocity = Fin 2, rightR2 = Fin 1, leftR2 = Fin 1,
          xIntersect = NaN, yIntersect = NaN, leftXIntercept = NaN,
          rightXIntercept = NaN, xLineCross_l = NaN, yLineCross_l = NaN,
          xLineCross_r = NaN, yLineCross_r = NaN\<rparr>"
proof -
  have yl: "np_take ex_signal [0, 1] = Inr [Fin 1, Fin 3]"
    by (simp add: ex_signal_def py_index_def)
  have yr: "np_take ex_signal [2, 3] = Inr [Fin 5, Fin 7]"
    by (simp add: ex_signal_def py_index_def)
  have fl: "polyfitMatlab ex_fit [0, 1] [Fin 1, Fin 3] 1 = Inr ([Fin 2, Fin 1], (), [Fin 0, Fin 1])"
    by (simp add: ex_fit_def)
  have fr: "polyfitMatlab ex_fit [2, 3] [Fin 5, Fin 7] 1 = Inr ([Fin 2, Fin 1], (), [Fin 0, Fin 1])"
    by (simp add: ex_fit_def)
  have vl: "polyvalMatlab ex_fit [Fin 2, Fin 1] [0, 1] () [Fin 0, Fin 1] = Inr ([Fin 1, Fin 3], ())"
    by (simp add: ex_fit_def)
  have vr: "polyvalMatlab ex_fit [Fin 2, Fin 1] [2, 3] () [Fin 0, Fin 1] = Inr ([Fin 5, Fin 7], ())"
    by (simp add: ex_fit_def)
  have cl: "corrMatlab ex_fit [Fin 1, Fin 3] [Fin 1, Fin 3] = Inr ([[Fin 1]], ())"
    by (simp add: ex_fit_def)
  have cr: "corrMatlab ex_fit [Fin 5, Fin 7] [Fin 5, Fin 7] = Inr ([[Fin 1]], ())"
    by (simp add: ex_fit_def)
  have r2: "bindS (py_index [[Fin 1]] 0) (\<lambda>row. py_index row 0) = Inr (Fin 1)"
    by (simp add: bindS_def py_index_def)
  have sl: "get_line_intersection_slope ex_fit NaN NaN NaN NaN = Inr (NaN, NaN)"
    by (simp add: ex_fit_def)
  have sp: "get_intersection ex_fit = get_intersection_spec"
    by (simp add: ex_fit_def)
  have ln: "raw_line [Fin 2, Fin 1] [Fin 0, Fin 1] = Inr (Fin 2, Fin 1)"
    by (simp add: raw_line_def bindS_def py_index_def np_sub_def)
  have pe: "np_eq (Fin 2) (Fin 2)"
    by (simp add: np_eq_def)
  from parallel_flanks_give_nan[OF yl yr fl vl cl fr vr cr r2 r2 sl sp ln ln pe]
    yl yr fl fr sp ln pe
  show ?thesis by blast
qed

text \<open>
  Claim C6. When \<open>lines_intersection_matlabx\<close> returns, the average velocity of
  each flank is the first coefficient of that flank's fit divided by the second entry
  of its \<open>mu\<close>: \<open>averLeftVelocity = pLeft[0] / muLeft[1]\<close> and
  \<open>averRightVelocity = pRight[0] / muRight[1]\<close>.
\<close>

theorem flank_velocity_is_slope_over_scale:
  assumes run: "lines_intersection_matlabx F signal xRight xLeft = Inr r"
    and yl: "np_take signal xLeft = Inr yLeft"
    and yr: "np_take signal xRight = Inr yRight"
    and fl: "polyfitMatlab F xLeft yLeft 1 = Inr (pLeft, SLeft, muLeft)"
    and fr: "polyfitMatlab F xRight yRight 1 = Inr (pRight, SRight, muRight)"
  shows "0 < length pLeft \<and> 1 < length muLeft \<and> 0 < length pRight \<and> 1 < length muRight \<and>
         averLeftVelocity r = np_div (pLeft ! 0) (muLeft ! 1) \<and>
         averRightVelocity r = np_div (pRight ! 0) (muRight ! 1)"
  using run fl fr unfolding lines_intersection_matlabx_def yl yr
  by (auto simp: bindS_def split: sum.splits prod.splits dest!: py_index_0 py_index_1)

theorem flank_velocity_is_slope_over_scale_witness:
  "lines_intersection_matlabx ex_fit ex_signal [2, 3] [0, 1] =
     Inr \<lparr>leftSlope = NaN, rightSlope = NaN, averLeftVelocity = Fin 2,
          averRightVelocity = Fin 2, rightR2 = Fin 1, leftR2 = Fin 1,
          xIntersect = NaN, yIntersect = NaN, leftXIntercept = NaN,
          rightXIntercept = NaN, xLineCross_l = NaN, yLineCross_l = NaN,
          xLineCross_r = NaN, yLineCross_r = NaN\<rparr> \<and>
   np_take ex_signal [0, 1] = Inr [Fin 1, Fin 3] \<and>
   np_take ex_signal [2, 3] = Inr [Fin 5, Fin 7] \<and>
   polyfitMatlab ex_fit [0, 1] [Fin 1, Fin 3] 1 = Inr ([Fin 2, Fin 1], (), [Fin 0, Fin 1]) \<and>
   polyfitMatlab ex_fit [2, 3] [Fin 5, Fin 7] 1 = Inr ([Fin 2, Fin 1], (), [Fin 0, Fin 1]) \<and>
   averLeftVelocity
     \<lparr>leftSlope = NaN, rightSlope = NaN, averLeftVelocity = Fin 2,
      averRightVelocity = Fin 2, rightR2 = Fin 1, leftR2 = Fin 1,
      xIntersect = NaN, yIntersect = NaN, leftXIntercept = NaN,
      rightXIntercept = NaN, xLineCross_l = NaN, yLineCross_l = NaN,
      xLineCross_r = NaN, yLineCross_r = NaN\<rparr> = np_div ([Fin 2, Fin 1] ! 0) ([Fin 0, Fin 1] ! 1)"
proof -
  have run: "lines_intersection_matlabx ex_fit ex_signal [2, 3] [0, 1] =
     Inr \<lparr>leftSlope = NaN, rightSlope = NaN, averLeftVelocity = Fin 2,
          averRightVelocity = Fin 2, rightR2 = Fin 1, leftR2 = Fin 1,
          xIntersect = NaN, yIntersect = NaN, leftXIntercept = NaN,
          rightXIntercept = NaN, xLineCross_l = NaN, yLineCross_l = NaN,
          xLineCross_r = NaN, yLineCross_r = NaN\<rparr>"
    by (simp add: lines_intersection_matlabx_def ex_fit_def ex_signal_def bindS_def py_index_def
        get_intersection_spec_def raw_line_def np_eq_def np_sub_def)
  have yl: "np_take ex_signal [0, 1] = Inr [Fin 1, Fin 3]"
    by (simp add: ex_signal_def py_index_def)
  have yr: "np_take ex_signal [2, 3] = Inr [Fin 5, Fin 7]"
    by (simp add: ex_signal_def py_index_def)
  have fl: "polyfitMatlab ex_fit [0, 1] [Fin 1, Fin 3] 1 = Inr ([Fin 2, Fin 1], (), [Fin 0, Fin 1])"
    by (simp add: ex_fit_def)
  have fr: "polyfitMatlab ex_fit [2, 3] [Fin 5, Fin 7] 1 = Inr ([Fin 2, Fin 1], (), [Fin 0, Fin 1])"
    by (simp add: ex_fit_def)
  from flank_velocity_is_slope_over_scale[OF run yl yr fl fr]
  have "averLeftVelocity
     \<lparr>leftSlope = NaN, rightSlope = NaN, averLeftVelocity = Fin 2,
      averRightVelocity = Fin 2, rightR2 = Fin 1, leftR2 = Fin 1,
      xIntersect = NaN, yIntersect = NaN, leftXIntercept = NaN,
      rightXIntercept = NaN, xLineCross_l = NaN, yLineCross_l = NaN,
      xLineCross_r = NaN, yLineCross_r = NaN\<rparr> = np_div ([Fin 2, Fin 1] ! 0) ([Fin 0, Fin 1] ! 1)"
    by blast
  with run yl yr fl fr show ?thesis by blast
qed

subsection \<open>The coercion of the working rows\<close>

text \<open>
  Claim C8. Before a segment's rows go to the fitter, the five index columns
  \<open>start_blink\<close>, \<open>end_blink\<close>, \<open>outer_start\<close>, \<open>outer_end\<close> and
  \<open>left_zero\<close> are coerced to integer, a \<open>right_zero\<close> column, when present, has
  its missing values filled with \<open>-1\<close> and is coerced to integer, and nothing else
  of the rows changes: for rows that can be coerced, with values whose integer part fits
  into int64, the loop body is the dispatch on \<open>coerce_spec\<close> of the selected rows,
  in a store that holds this table as the one new object.
\<close>

theorem rows_coerced_before_dispatch:
  assumes a: "blink_df < length (heap s)"
    and ids: "df_getitem (heap s ! blink_df) ''seg_id'' = Inr ids"
    and co: "coercible (df_mask (heap s ! blink_df) (series_eq ids (int seg_id)))"
  shows "process_segment H blink_df sfreq params channel run_fit seg_id raw s =
         dispatch_segment H sfreq params channel run_fit seg_id raw
           (coerce_spec (df_mask (heap s ! blink_df) (series_eq ids (int seg_id))))
           (s\<lparr>heap := heap s @
              [coerce_spec (df_mask (heap s ! blink_df) (series_eq ids (int seg_id)))]\<rparr>)"
proof -
  let ?m = "df_mask (heap s ! blink_df) (series_eq ids (int seg_id))"
  let ?r = "length (heap s)"
  let ?s1 = "s\<lparr>heap := heap s @ [?m]\<rparr>"
  have r1: "?r < length (heap ?s1)" and m: "heap ?s1 ! ?r = ?m" by simp_all
  have unfold: "process_segment H blink_df sfreq params channel run_fit seg_id raw s =
      (case coerce_index_columns ?r ?s1 of
         (Inl e, s') \<Rightarrow> (Inl e, s')
       | (Inr u, s') \<Rightarrow>
           dispatch_segment H sfreq params channel run_fit seg_id raw (heap s' ! ?r) s')"
    using ids by (simp add: process_segment_def bindE_def load_def lift_def alloc_def
        split: prod.splits sum.splits)
  from tracks_coerce[unfolded tracks_def, rule_format, OF r1, unfolded m]
    coerced_rows_spec[OF co]
  have "coerce_index_columns ?r ?s1 = (Inr (), ?s1\<lparr>heap := (heap ?s1)[?r := coerce_spec ?m]\<rparr>)"
    by simp
  then show ?thesis unfolding unfold by simp
qed

theorem rows_coerced_before_dispatch_witness:
  "0 < length (heap ex_state_float) \<and>
   df_getitem (heap ex_state_float ! 0) ''seg_id'' = Inr [Fin 0] \<and>
   coercible (df_mask (heap ex_state_float ! 0) (series_eq [Fin 0] (int 0))) \<and>
   coerce_spec (df_mask (heap ex_state_float ! 0) (series_eq [Fin 0] (int 0))) =
     \<lparr>df_index = [4],
      df_cols =
        [(''seg_id'', [Fin 0]),
         (''start_blink'', [Fin 3]),
         (''end_blink'', [Fin 5]),
         (''outer_start'', [Fin 0]),
         (''outer_end'', [Fin 9]),
         (''left_zero'', [Fin (- 1)]),
         (''right_zero'', [Fin (- 1)]),
         (''amplitude'', [Fin (1 / 2)])]\<rparr> \<and>
   process_segment ex_collab 0 (Fin 250) () ''EEG-E8'' False 0 (ex_segments ! 0) ex_state_float =
     dispatch_segment ex_collab (Fin 250) () ''EEG-E8'' False 0 (ex_segments ! 0)
       (coerce_spec (df_mask (heap ex_state_float ! 0) (series_eq [Fin 0] (int 0))))
       (ex_state_float\<lparr>heap := heap ex_state_float @
          [coerce_spec (df_mask (heap ex_state_float ! 0) (series_eq [Fin 0] (int 0)))]\<rparr>)"
proof -
  have h1: "0 < length (heap ex_state_float)" by (simp add: ex_state_float_def)
  have h2: "df_getitem (heap ex_state_float ! 0) ''seg_id'' = Inr [Fin 0]"
    by (simp add: ex_state_float_def ex_float_blinks_def df_getitem_def)
  have h3: "coercible (df_mask (heap ex_state_float ! 0) (series_eq [Fin 0] (int 0)))"
    by (simp add: ex_state_float_def ex_float_blinks_def coercible_def df_mask_def series_eq_def
        pick_def index_columns_def int64_range_def trunc_def)
  have v: "coerce_spec (df_mask (heap ex_state_float ! 0) (series_eq [Fin 0] (int 0))) =
     \<lparr>df_index = [4],
      df_cols =
        [(''seg_id'', [Fin 0]),
         (''start_blink'', [Fin 3]),
         (''end_blink'', [Fin 5]),
         (''outer_start'', [Fin 0]),
         (''outer_end'', [Fin 9]),
         (''left_zero'', [Fin (- 1)]),
         (''right_zero'', [Fin (- 1)]),
         (''amplitude'', [Fin (1 / 2)])]\<rparr>"
    by (simp add: ex_state_float_def ex_float_blinks_def coerce_spec_def map_cols_def
        coerced_column_def df_mask_def series_eq_def pick_def index_columns_def trunc_def)
  from rows_coerced_before_dispatch[OF h1 h2 h3, of ex_collab "Fin 250" "()" "''EEG-E8''" False
      "ex_segments ! 0"]
  have "process_segment ex_collab 0 (Fin 250) () ''EEG-E8'' False 0 (ex_segments ! 0) ex_state_float =
     dispatch_segment ex_collab (Fin 250) () ''EEG-E8'' False 0 (ex_segments ! 0)
       (coerce_spec (df_mask (heap ex_state_float ! 0) (series_eq [Fin 0] (int 0))))
       (ex_state_float\<lparr>heap := heap ex_state_float @
          [coerce_spec (df_mask (heap ex_state_float ! 0) (series_eq [Fin 0] (int 0)))]\<rparr>)" .
  with h1 h2 h3 v show ?thesis by blast
qed

subsection \<open>Rows and segments are matched by position\<close>

text \<open>
  Claim C10. A candidate row is processed only for the segment whose position equals
  its \<open>seg_id\<close>. For a well-formed candidate table, the call returns the same table
  (or raises the same exception) when the rows that match no position
  \<open>0 .. len(segments)-1\<close> are removed beforehand, and likewise when the rows whose
  \<open>seg_id\<close> is negative or at least \<open>len(segments)\<close> are removed: such rows
  produce no output row and no error.
\<close>

theorem unmatched_rows_ignored:
  assumes a: "blink_df < length (heap s)"
    and a1: "b1 < length (heap s1)" and a2: "b2 < length (heap s2)"
    and wf: "well_formed_candidates (heap s ! blink_df)"
    and m1: "heap s1 ! b1 = keep_matching (length segments) (heap s ! blink_df)"
    and m2: "heap s2 ! b2 = drop_out_of_range (length segments) (heap s ! blink_df)"
  shows "fst (compute_segment_blink_properties H segments b1 params channel run_fit s1) =
         fst (compute_segment_blink_properties H segments blink_df params channel run_fit s) \<and>
         fst (compute_segment_blink_properties H segments b2 params channel run_fit s2) =
         fst (compute_segment_blink_properties H segments blink_df params channel run_fit s)"
proof -
  let ?df = "heap s ! blink_df"
  let ?n = "length segments"
  from wf obtain ids where ids: "map_of (df_cols ?df) ''seg_id'' = Some ids"
    by (auto simp: well_formed_candidates_def split: option.splits)
  have lt: "k < ?n" if "(k, raw) \<in> set (enumerate 0 segments)" for k raw
    using that by (simp add: in_set_enumerate_eq)
  have e1: "\<forall>(k, raw)\<in>set (enumerate 0 segments).
        (\<forall>c\<in>set ids. cell_eq_int c (int k) \<longrightarrow> matches_segment ?n c) \<or>
        ((\<forall>c\<in>set ids. cell_eq_int c (int k) \<longrightarrow> \<not> matches_segment ?n c) \<and>
         segment_outcome H ?df (first_sfreq segments) params channel run_fit k raw = Inr None)"
    using lt cell_eq_int_matches by blast
  have e2: "\<forall>(k, raw)\<in>set (enumerate 0 segments).
        (\<forall>c\<in>set ids. cell_eq_int c (int k) \<longrightarrow> \<not> out_of_range ?n c) \<or>
        ((\<forall>c\<in>set ids. cell_eq_int c (int k) \<longrightarrow> \<not> \<not> out_of_range ?n c) \<and>
         segment_outcome H ?df (first_sfreq segments) params channel run_fit k raw = Inr None)"
    using lt cell_eq_int_in_range by blast
  from compute_outcome_masked[OF wf ids e1]
  have 1: "compute_outcome H segments (keep_matching ?n ?df) params channel run_fit =
           compute_outcome H segments ?df params channel run_fit"
    by (simp add: keep_matching_def)
  from compute_outcome_masked[OF wf ids e2]
  have 2: "compute_outcome H segments (drop_out_of_range ?n ?df) params channel run_fit =
           compute_outcome H segments ?df params channel run_fit"
    by (simp add: drop_out_of_range_def)
  show ?thesis
    by (simp add: compute_fst[OF a] compute_fst[OF a1] compute_fst[OF a2] m1 m2 1 2)
qed

theorem unmatched_rows_ignored_witness:
  "0 < length (heap ex_state) \<and> 0 < length (heap ex_state_matching) \<and>
   0 < length (heap ex_state_in_range) \<and>
   well_formed_candidates (heap ex_state ! 0) \<and>
   heap ex_state_matching ! 0 = keep_matching (length ex_segments) (heap ex_state ! 0) \<and>
   heap ex_state_in_range ! 0 = drop_out_of_range (length ex_segments) (heap ex_state ! 0) \<and>
   drop_out_of_range (length ex_segments) (heap ex_state ! 0) =
     \<lparr>df_index = [0, 1],
      df_cols =
        [(''seg_id'', [Fin 0, Fin 1]),
         (''start_blink'', [Fin 3, Fin 2]),
         (''end_blink'', [Fin 5, Fin 4]),
         (''outer_start'', [Fin 0, Fin 0]),
         (''outer_end'', [Fin 9, Fin 9]),
         (''left_zero'', [Fin 1, Fin 1]),
         (''right_zero'', [Fin 6, Fin 7])]\<rparr> \<and>
   fst (compute_segment_blink_properties ex_collab ex_segments 0 () ''EEG-E8'' False
          ex_state_matching) =
   fst (compute_segment_blink_properties ex_collab ex_segments 0 () ''EEG-E8'' False ex_state) \<and>
   fst (compute_segment_blink_properties ex_collab ex_segments 0 () ''EEG-E8'' False
          ex_state_in_range) =
   fst (compute_segment_blink_properties ex_collab ex_segments 0 () ''EEG-E8'' False ex_state)"
proof -
  have h0: "0 < length (heap ex_state)" by (simp add: ex_state_def)
  have h1: "0 < length (heap ex_state_matching)" by (simp add: ex_state_matching_def)
  have h2: "0 < length (heap ex_state_in_range)" by (simp add: ex_state_in_range_def)
  have wf: "well_formed_candidates (heap ex_state ! 0)"
    by (simp add: ex_state_def ex_blinks_def well_formed_candidates_def index_columns_def)
  have m1: "heap ex_state_matching ! 0 = keep_matching (length ex_segments) (heap ex_state ! 0)"
    by (simp add: ex_state_matching_def ex_state_def ex_segments_def numeral_2_eq_2)
  have m2: "heap ex_state_in_range ! 0 =
      drop_out_of_range (length ex_segments) (heap ex_state ! 0)"
    by (simp add: ex_state_in_range_def ex_state_def ex_segments_def numeral_2_eq_2)
  have v: "drop_out_of_range (length ex_segments) (heap ex_state ! 0) =
     \<lparr>df_index = [0, 1],
      df_cols =
        [(''seg_id'', [Fin 0, Fin 1]),
         (''start_blink'', [Fin 3, Fin 2]),
         (''end_blink'', [Fin 5, Fin 4]),
         (''outer_start'', [Fin 0, Fin 0]),
         (''outer_end'', [Fin 9, Fin 9]),
         (''left_zero'', [Fin 1, Fin 1]),
         (''right_zero'', [Fin 6, Fin 7])]\<rparr>"
    by (simp add: ex_state_def ex_blinks_def ex_segments_def drop_out_of_range_def
        mask_by_seg_id_def df_mask_def pick_def)
  from unmatched_rows_ignored[OF h0 h1 h2 wf m1 m2, of ex_collab "()" "''EEG-E8''" False]
    h0 h1 h2 wf m1 m2 v
  show ?thesis by blast
qed

subsection \<open>A segment that fails\<close>




subsection \<open>Segment isolation\<close>




end
